theory Spec2Isabelle
  imports Complex_Main
begin

section \<open>Admission controller (src/app/lib/rate-limiter.ts)\<close>

text \<open>
  Numbers are JavaScript numbers in the source; every quantity of the limiter (request
  counts, millisecond timestamps, the configured interval and ceiling) is an integer far
  below \<open>2^53\<close>, so it is modelled as \<open>int\<close>. \<open>Date.now()\<close> is the parameter
  \<open>now\<close>. The module-level \<open>Map\<close> called \<open>requestLogs\<close> is a finite map that
  every operation takes and returns.
\<close>

record RateLimitConfig =
  interval :: int
  maxRequests :: int

record RequestLog =
  count :: int
  resetTime :: int

type_synonym requestLogs = "string \<rightharpoonup> RequestLog"

text \<open>
  Of a \<open>NextRequest\<close> the limiter reads only \<open>request.headers.get(name)\<close>, which is
  \<open>null\<close> for an absent header.
\<close>

record NextRequest =
  headers :: "string \<rightharpoonup> string"

text \<open>
  The object returned by the limiter. \<open>retryAfter\<close> is only present on a rejection.
  The field \<open>resetTime\<close> of the result is named \<open>resultResetTime\<close> here, since
  \<open>resetTime\<close> is the field of \<open>RequestLog\<close>.
\<close>

record RateLimitResult =
  allowed :: bool
  remaining :: int
  resultResetTime :: int
  retryAfter :: "int option"

text \<open>
  JavaScript's \<open>a || b\<close> on an optional string: \<open>undefined\<close>, \<open>null\<close> and the empty
  string are falsy.
\<close>

definition js_or :: "string option \<Rightarrow> string \<Rightarrow> string" where
  "js_or a b = (case a of None \<Rightarrow> b | Some s \<Rightarrow> if s = [] then b else s)"

text \<open>
  \<open>identifier || request.headers.get('x-forwarded-for') ||
  request.headers.get('x-real-ip') || 'anonymous'\<close>
\<close>

definition clientId :: "NextRequest \<Rightarrow> string option \<Rightarrow> string" where
  "clientId request identifier =
     js_or identifier
       (js_or (headers request ''x-forwarded-for'')
          (js_or (headers request ''x-real-ip'') ''anonymous''))"

text \<open>\<open>Math.ceil(ms / 1000)\<close> for an integer number of milliseconds.\<close>

definition ceilSeconds :: "int \<Rightarrow> int" where
  "ceilSeconds ms = \<lceil>real_of_int ms / 1000\<rceil>"

text \<open>
  The body of the closure returned by \<open>rateLimit(config)\<close>, after \<open>id\<close> has been
  computed. The three exits are kept in the order of the source.
\<close>

definition rateLimitId ::
  "RateLimitConfig \<Rightarrow> int \<Rightarrow> string \<Rightarrow> requestLogs \<Rightarrow> RateLimitResult \<times> requestLogs" where
  "rateLimitId config now ident logs =
     (let fresh =
            (\<lparr>allowed = True, remaining = maxRequests config - 1,
              resultResetTime = now + interval config, retryAfter = None\<rparr>,
             logs(ident \<mapsto> \<lparr>count = 1, resetTime = now + interval config\<rparr>))
      in case logs ident of
           None \<Rightarrow> fresh
         | Some entry \<Rightarrow>
             if resetTime entry < now then fresh
             else if count entry \<ge> maxRequests config then
               (\<lparr>allowed = False, remaining = 0, resultResetTime = resetTime entry,
                 retryAfter = Some (ceilSeconds (resetTime entry - now))\<rparr>, logs)
             else
               (let entry' = entry\<lparr>count := count entry + 1\<rparr>
                in (\<lparr>allowed = True, remaining = maxRequests config - count entry',
                     resultResetTime = resetTime entry', retryAfter = None\<rparr>,
                    logs(ident \<mapsto> entry'))))"

definition rateLimit ::
  "RateLimitConfig \<Rightarrow> int \<Rightarrow> NextRequest \<Rightarrow> string option \<Rightarrow> requestLogs
     \<Rightarrow> RateLimitResult \<times> requestLogs" where
  "rateLimit config now request identifier logs =
     rateLimitId config now (clientId request identifier) logs"

text \<open>The body of the \<open>setInterval\<close> callback: expired entries are deleted.\<close>

definition cleanup :: "int \<Rightarrow> requestLogs \<Rightarrow> requestLogs" where
  "cleanup now logs =
     (\<lambda>key. case logs key of
              None \<Rightarrow> None
            | Some entry \<Rightarrow> if resetTime entry < now then None else Some entry)"

text \<open>The four presets of \<open>rateLimiters\<close>. All four closures share \<open>requestLogs\<close>.\<close>

definition standardConfig :: RateLimitConfig where
  "standardConfig = \<lparr>interval = 60000, maxRequests = 30\<rparr>"

definition heavyConfig :: RateLimitConfig where
  "heavyConfig = \<lparr>interval = 60000, maxRequests = 5\<rparr>"

definition authConfig :: RateLimitConfig where
  "authConfig = \<lparr>interval = 900000, maxRequests = 10\<rparr>"

definition imageConfig :: RateLimitConfig where
  "imageConfig = \<lparr>interval = 60000, maxRequests = 10\<rparr>"

text \<open>
  A caller issuing one request after another under one identifier: the calls are made at
  the given times, each on the map left by the one before.
\<close>

fun admits ::
  "RateLimitConfig \<Rightarrow> string \<Rightarrow> int list \<Rightarrow> requestLogs \<Rightarrow> RateLimitResult list \<times> requestLogs" where
  "admits config ident [] logs = ([], logs)"
| "admits config ident (t # ts) logs =
     (case rateLimitId config t ident logs of
        (r, logs') \<Rightarrow>
          (case admits config ident ts logs' of (rs, logs'') \<Rightarrow> (r # rs, logs'')))"

text \<open>
  What can happen to the shared map: a call of one limiter closure under some identifier at
  some time, or a run of the periodic sweep. \<open>runEvents\<close> applies a history of such
  events, oldest first.
\<close>

datatype event = Call string int | Sweep int

fun applyEvent :: "RateLimitConfig \<Rightarrow> event \<Rightarrow> requestLogs \<Rightarrow> requestLogs" where
  "applyEvent config (Call ident now) logs = snd (rateLimitId config now ident logs)"
| "applyEvent config (Sweep now) logs = cleanup now logs"

definition runEvents :: "RateLimitConfig \<Rightarrow> event list \<Rightarrow> requestLogs \<Rightarrow> requestLogs" where
  "runEvents config evs logs = fold (applyEvent config) evs logs"

text \<open>Every stored entry has a count between 1 and the ceiling.\<close>

definition countsBounded :: "RateLimitConfig \<Rightarrow> requestLogs \<Rightarrow> bool" where
  "countsBounded config logs =
     (\<forall>key entry. logs key = Some entry \<longrightarrow> 1 \<le> count entry \<and> count entry \<le> maxRequests config)"

text \<open>
  Requests arriving one after another at one limiter closure, each called as the document
  route calls it, \<open>rateLimiters.heavy(request)\<close>, with no explicit identifier.
\<close>

fun serveAll ::
  "RateLimitConfig \<Rightarrow> (NextRequest \<times> int) list \<Rightarrow> requestLogs
     \<Rightarrow> RateLimitResult list \<times> requestLogs" where
  "serveAll config [] logs = ([], logs)"
| "serveAll config ((request, now) # calls) logs =
     (case rateLimit config now request None logs of
        (r, logs') \<Rightarrow>
          (case serveAll config calls logs' of (rs, logs'') \<Rightarrow> (r # rs, logs'')))"

section \<open>Speaker attribution (performDiarization, conversation route)\<close>

text \<open>
  A transcript is a JavaScript string; it is modelled as a list of \<open>char\<close>, each standing
  for the code unit of the same number, so the model covers the transcripts whose code
  units are below 256. Among these, the characters matched by \<open>\s\<close> and removed by
  \<open>trim()\<close> are tab, line feed, vertical tab, form feed, carriage return, space and the
  no-break space.
\<close>

definition isSpace :: "char \<Rightarrow> bool" where
  "isSpace c = (c \<in> set [CHR 0x09, CHR 0x0A, CHR 0x0B, CHR 0x0C, CHR 0x0D, CHR '' '', CHR 0xA0])"

text \<open>The class \<open>[.!?]\<close> of the lookbehind.\<close>

definition isTerminal :: "char \<Rightarrow> bool" where
  "isTerminal c = (c \<in> set ''.!?'')"

definition trim :: "string \<Rightarrow> string" where
  "trim s = rev (dropWhile isSpace (rev (dropWhile isSpace s)))"

text \<open>
  \<open>transcript.split(/(?<=[.!?])\s+/)\<close>. A match starts at a whitespace character whose
  predecessor is in \<open>[.!?]\<close> and takes the whole run of whitespace; the piece before it is
  emitted and the run is dropped. \<open>cur\<close> is the piece read so far. A match cannot start
  at the beginning of a piece: there the predecessor is missing or is whitespace.
\<close>

function splitSentences :: "string \<Rightarrow> string \<Rightarrow> string list" where
  "splitSentences cur [] = [cur]"
| "splitSentences cur (c # cs) =
     (if isSpace c \<and> cur \<noteq> [] \<and> isTerminal (last cur)
      then cur # splitSentences [] (dropWhile isSpace cs)
      else splitSentences (cur @ [c]) cs)"
  by pat_completeness auto
termination
  by (relation "measure (\<lambda>(cur, s). length s)")
     (auto simp: length_dropWhile_le less_Suc_eq_le)

text \<open>\<open>s.split(' ')\<close>: pieces between single space characters, empty pieces kept.\<close>

fun splitSpace :: "string \<Rightarrow> string \<Rightarrow> string list" where
  "splitSpace cur [] = [cur]"
| "splitSpace cur (c # cs) =
     (if c = CHR '' '' then cur # splitSpace [] cs else splitSpace (cur @ [c]) cs)"

text \<open>
  \<open>toLowerCase()\<close> on code units below 256: the letters A to Z, and the Latin-1 capitals
  0xC0 to 0xDE other than the multiplication sign 0xD7, move up by 32.
\<close>

definition toLowerChar :: "char \<Rightarrow> char" where
  "toLowerChar c =
     (let n = (of_char c :: nat)
      in if (65 \<le> n \<and> n \<le> 90) \<or> (192 \<le> n \<and> n \<le> 222 \<and> n \<noteq> 215)
         then char_of (n + 32) else c)"

definition toLowerCase :: "string \<Rightarrow> string" where
  "toLowerCase s = map toLowerChar s"

record segment =
  speaker :: string
  "text" :: string

text \<open>\<open>words.some(w => lexicon.includes(w))\<close>\<close>

definition someIncluded :: "string list \<Rightarrow> string list \<Rightarrow> bool" where
  "someIncluded lexicon words = (\<exists>w\<in>set words. w \<in> set lexicon)"

definition sentenceWords :: "string \<Rightarrow> string list" where
  "sentenceWords trimmed = splitSpace [] (toLowerCase trimmed)"

definition hasFirstPerson :: "string list \<Rightarrow> bool" where
  "hasFirstPerson words = someIncluded [''i'', ''i'm'', ''i've'', ''i'll'', ''my'', ''me''] words"

definition hasSecondPerson :: "string list \<Rightarrow> bool" where
  "hasSecondPerson words = someIncluded [''you'', ''you're'', ''you've'', ''your''] words"

definition hasAgreement :: "string list \<Rightarrow> bool" where
  "hasAgreement words =
     someIncluded [''yes'', ''yeah'', ''sure'', ''okay'', ''right'', ''exactly''] words"

definition hasDisagreement :: "string list \<Rightarrow> bool" where
  "hasDisagreement words = someIncluded [''no'', ''nope'', ''not'', ''don't'', ''doesn't''] words"

text \<open>\<open>x === 'Speaker 1' ? 'Speaker 2' : 'Speaker 1'\<close>\<close>

definition otherSpeaker :: "string \<Rightarrow> string" where
  "otherSpeaker x = (if x = ''Speaker 1'' then ''Speaker 2'' else ''Speaker 1'')"

text \<open>\<open>diarized[diarized.length - 1]\<close>, which is \<open>undefined\<close> on the empty array.\<close>

definition lastSegment :: "segment list \<Rightarrow> segment option" where
  "lastSegment diarized = (if diarized = [] then None else Some (last diarized))"

text \<open>\<open>xs.slice(-2)\<close>: the last two elements, or all of them when there are fewer.\<close>

definition sliceLast2 :: "'a list \<Rightarrow> 'a list" where
  "sliceLast2 xs = drop (length xs - 2) xs"

text \<open>
  The callback of \<open>sentences.forEach\<close>. Its state is the pair of the two variables it
  assigns, \<open>currentSpeaker\<close> and \<open>diarized\<close>. With \<open>prevSentence\<close> undefined, the
  guard \<open>prevSentence && ...\<close> is false and \<open>prevSentence?.speaker === 'Speaker 1'\<close> is
  false as well.
\<close>

definition diarizeSentence :: "string \<Rightarrow> nat \<Rightarrow> string \<times> segment list \<Rightarrow> string \<times> segment list" where
  "diarizeSentence sentence index state =
     (case state of (currentSpeaker, diarized) \<Rightarrow>
        let trimmed = trim sentence in
        if trimmed = [] then state
        else
          let words = sentenceWords trimmed;
              prevSentence = lastSegment diarized;
              flipped = (case prevSentence of
                           None \<Rightarrow> ''Speaker 1''
                         | Some prev \<Rightarrow> otherSpeaker (speaker prev));
              currentSpeaker' =
                (if index = 0 then ''Speaker 1''
                 else if (case prevSentence of
                            None \<Rightarrow> False
                          | Some prev \<Rightarrow> CHR ''?'' \<in> set (text prev))
                   then flipped
                 else if hasAgreement words \<or> hasDisagreement words then flipped
                 else if hasFirstPerson words \<and> \<not> hasSecondPerson words then currentSpeaker
                 else if hasSecondPerson words \<and> \<not> hasFirstPerson words then flipped
                 else if index > 0
                         \<and> length (filter (\<lambda>d. speaker d = currentSpeaker) diarized) \<ge> 2
                   then (if list_all (\<lambda>d. speaker d = currentSpeaker) (sliceLast2 diarized)
                         then otherSpeaker currentSpeaker else currentSpeaker)
                 else currentSpeaker)
          in (currentSpeaker', diarized @ [\<lparr>speaker = currentSpeaker', text = trimmed\<rparr>]))"

text \<open>\<open>forEach\<close> passes each element with its index in \<open>sentences\<close>.\<close>

fun forEachSentence ::
  "nat \<Rightarrow> string list \<Rightarrow> string \<times> segment list \<Rightarrow> string \<times> segment list" where
  "forEachSentence index [] state = state"
| "forEachSentence index (sentence # rest) state =
     forEachSentence (Suc index) rest (diarizeSentence sentence index state)"

definition sentencesOf :: "string \<Rightarrow> string list" where
  "sentencesOf transcript = filter (\<lambda>s. trim s \<noteq> []) (splitSentences [] transcript)"

definition performDiarization :: "string \<Rightarrow> segment list" where
  "performDiarization transcript =
     snd (forEachSentence 0 (sentencesOf transcript) (''Speaker 1'', []))"

subsection \<open>The attribution rules as the specification words them\<close>

text \<open>
  The specification's engine has two labels and decides, for each sentence after the
  first, between flipping and keeping the label of the previous segment, by six rules in
  a fixed order over the history of segments. Blank sentences are discarded and the
  others are taken without the whitespace around them. Two tests are parameters, so that
  the rules can be read as they are worded or as amended: the test of rule (a) on the
  previous segment's text, and the test of rules (b) to (d) that a sentence contains a
  marker of a list. Nothing in this subsection uses the route's functions for words and
  markers.
\<close>





























section \<open>Document route (src/app/api/analyze/document/route.ts)\<close>

text \<open>
  Everything the route gets from outside the process is read from a \<open>world\<close>: the
  environment variables, the parsed multipart form, the URL parser, the HTTP client, the
  document parsers, the file system, the page renderer and the inference provider. Each
  of them may fail; a thrown JavaScript error is a value of \<open>jsError\<close>, with the
  properties the route inspects: \<open>message\<close>, \<open>code\<close>, \<open>status\<close> and
  \<open>response?.status\<close>.
\<close>

record jsError =
  errMessage :: string
  errCode :: "string option"
  errStatus :: "nat option"
  errResponseStatus :: "nat option"

text \<open>\<open>new Error(message)\<close>\<close>

definition newError :: "string \<Rightarrow> jsError" where
  "newError message =
     \<lparr>errMessage = message, errCode = None, errStatus = None, errResponseStatus = None\<rparr>"

text \<open>The fields of the \<open>File\<close> objects and of the multipart form that the routes read.\<close>

record uploadedFile =
  fileName :: string
  fileSize :: nat
  fileType :: string
  fileContent :: string

record formData =
  formType :: "string option"
  formUrl :: "string option"
  formDocument :: "uploadedFile option"
  formImage :: "uploadedFile option"

text \<open>What \<open>pdf-parse\<close> returns, as far as the route reads it.\<close>

record pdfData =
  pdfText :: string
  numpages :: nat

text \<open>
  One pass of the page loop of \<open>convertPDFToImages\<close>: the converter throws; it returns
  no path; reading the image file throws; the image is read and pushed (its base64 text)
  and the temporary file is removed; or the image is pushed and removing the file throws.
\<close>

datatype pageOutcome =
    ConverterThrows
  | NoPath
  | ReadThrows
  | Rendered string
  | RenderedUnlinkThrows string

text \<open>
  The four chat completions of the route, each with the values interpolated into its
  prompt: the synthesis over the page analyses (file name, page count, number of pages
  analysed, combined analyses), the summary of a PDF's extracted text, the last-resort
  summary of a PDF's text, and the summary of other content (each: file name, text).
\<close>

datatype chatRequest =
    OverallSummary string nat nat string
  | TextOnlySummary string string
  | LastResortSummary string string
  | ContentSummary string string

text \<open>Requests that leave the process, recorded in the order in which they are made.\<close>

datatype netCall = HttpGet string | VisionCall nat | ChatCall chatRequest

record world =
  envApiKey :: "string option"
  nodeEnv :: "string option"
  readFormData :: "jsError + formData"
  parseURL :: "string \<Rightarrow> string option"
  axiosGet :: "string \<Rightarrow> jsError + string"
  mammothExtract :: "string \<Rightarrow> jsError + string"
  textDecode :: "string \<Rightarrow> string"
  parsePDF :: "string \<Rightarrow> jsError + pdfData"
  fsPrepare :: "string \<Rightarrow> jsError option"
  convertPage :: "string \<Rightarrow> nat \<Rightarrow> pageOutcome"
  fsRemove :: "jsError option"
  visionCompletion :: "string \<Rightarrow> nat \<Rightarrow> string \<Rightarrow> jsError + string option"
  chatCompletion :: "chatRequest \<Rightarrow> jsError + string option"
  describeImage :: "uploadedFile \<Rightarrow> jsError + string option"

text \<open>
  \<open>parseURL\<close> is \<open>new URL(url).protocol\<close>, \<open>None\<close> when the constructor throws.
  \<open>axiosGet\<close> is the request together with the \<open>cheerio\<close> steps: on success it yields
  the text of \<open>body\<close> after the five element removals. \<open>fsPrepare\<close> stands for creating
  the temporary directory, writing the PDF and configuring the converter, \<open>fsRemove\<close> for
  removing the directory. The completions yield \<open>choices[0]?.message?.content\<close>.
\<close>

text \<open>
  Responses. A header value is a number turned into text by \<open>String\<close>, an ISO rendering
  of a millisecond timestamp, or a literal text. A body is one of the JSON shapes the
  routes build: \<open>{error, timestamp, details?}\<close> of \<open>errorResponse\<close>,
  \<open>{error, retryAfter}\<close> of the limiter's rejection, \<open>{summary, metadata: {fileName,
  processedAt, remainingRequests}}\<close>, and for the image route \<open>{error}\<close> and
  \<open>{description}\<close>. One time \<open>now\<close> stands for every clock read of a request.
\<close>

datatype headerValue = HNumber int | HIsoDate int | HText string

datatype details = RetryAfterSeconds nat | Stack jsError

datatype description =
    ModelDescription string
  | DemoMode string nat
  | ModelNotFound string string nat
  | ServiceUnavailable string string nat

datatype body =
    ErrorBody string int "details option"
  | TooManyRequests string "int option"
  | SummaryBody string string int int
  | PlainError string
  | DescriptionBody description

record response =
  status :: nat
  responseHeaders :: "(string \<times> headerValue) list"
  body :: body

definition errorResponse :: "string \<Rightarrow> nat \<Rightarrow> details option \<Rightarrow> int \<Rightarrow> response" where
  "errorResponse message st det now =
     \<lparr>status = st, responseHeaders = [], body = ErrorBody message now det\<rparr>"

text \<open>\<open>String(n)\<close> for the numbers put into prompts and summaries.\<close>

definition digitChar :: "nat \<Rightarrow> char" where
  "digitChar d = ''0123456789'' ! d"

function showNat :: "nat \<Rightarrow> string" where
  "showNat n = (if n < 10 then [digitChar n] else showNat (n div 10) @ [digitChar (n mod 10)])"
  by pat_completeness auto
termination
  by (relation "measure id") auto

text \<open>\<open>s.replace(/\s+/g, ' ')\<close>\<close>

function collapseSpaces :: "string \<Rightarrow> string" where
  "collapseSpaces [] = []"
| "collapseSpaces (c # cs) =
     (if isSpace c then CHR '' '' # collapseSpaces (dropWhile isSpace cs)
      else c # collapseSpaces cs)"
  by pat_completeness auto
termination
  by (relation "measure length") (auto simp: length_dropWhile_le less_Suc_eq_le)

definition endsWith :: "string \<Rightarrow> string \<Rightarrow> bool" where
  "endsWith s suffix = (length suffix \<le> length s \<and> drop (length s - length suffix) s = suffix)"

definition startsWith :: "string \<Rightarrow> string \<Rightarrow> bool" where
  "startsWith s prefix = (take (length prefix) s = prefix)"

text \<open>\<open>summaries.join(sep)\<close>\<close>

fun joinWith :: "string \<Rightarrow> string list \<Rightarrow> string" where
  "joinWith sep [] = []"
| "joinWith sep [x] = x"
| "joinWith sep (x # y # ys) = x @ sep @ joinWith sep (y # ys)"

definition quoted :: "string \<Rightarrow> string" where
  "quoted s = CHR 0x22 # s @ [CHR 0x22]"

definition newline :: string where
  "newline = [CHR 0x0A]"

subsection \<open>The extractors\<close>

definition extractTextFromUrl :: "world \<Rightarrow> string \<Rightarrow> jsError + string" where
  "extractTextFromUrl world url =
     (case axiosGet world url of
        Inr bodyText \<Rightarrow> Inr (take 4000 (trim (collapseSpaces bodyText)))
      | Inl error \<Rightarrow>
          if errCode error = Some ''ECONNREFUSED'' then Inl (newError ''Cannot connect to the URL'')
          else if errResponseStatus error = Some 404 then Inl (newError ''URL not found'')
          else Inl (newError ''Failed to fetch URL content''))"

definition extractTextFromDoc :: "world \<Rightarrow> string \<Rightarrow> jsError + string" where
  "extractTextFromDoc world buffer =
     (case mammothExtract world buffer of
        Inr v \<Rightarrow> Inr (take 4000 v)
      | Inl error \<Rightarrow> Inl (newError ''Failed to parse Word document''))"

record pdfImages =
  images :: "string list"
  pageCount :: nat

text \<open>
  \<open>for (let i = 1; i <= maxPages; i++)\<close> with its \<open>try\<close> and \<open>catch\<close>: a pass that
  throws is logged and the loop goes on.
\<close>

function convertPages :: "(nat \<Rightarrow> pageOutcome) \<Rightarrow> nat \<Rightarrow> nat \<Rightarrow> string list \<Rightarrow> string list" where
  "convertPages converter maxPages i imgs =
     (if i \<le> maxPages
      then convertPages converter maxPages (i + 1)
             (case converter i of
                Rendered base64 \<Rightarrow> imgs @ [base64]
              | RenderedUnlinkThrows base64 \<Rightarrow> imgs @ [base64]
              | ConverterThrows \<Rightarrow> imgs
              | NoPath \<Rightarrow> imgs
              | ReadThrows \<Rightarrow> imgs)
      else imgs)"
  by pat_completeness auto
termination
  by (relation "measure (\<lambda>(converter, maxPages, i, imgs). Suc maxPages - i)") auto

declare convertPages.simps [simp del]

definition convertPDFToImages :: "world \<Rightarrow> string \<Rightarrow> jsError + pdfImages" where
  "convertPDFToImages world buffer =
     (case fsPrepare world buffer of
        Some error \<Rightarrow> Inl error
      | None \<Rightarrow>
          (case parsePDF world buffer of
             Inl error \<Rightarrow> Inl error
           | Inr data \<Rightarrow>
               let pages = (if numpages data = 0 then 1 else numpages data);
                   maxPages = min pages 5;
                   imgs = convertPages (convertPage world buffer) maxPages 1 []
               in (case fsRemove world of
                     Some error \<Rightarrow> Inl error
                   | None \<Rightarrow> Inr \<lparr>images = imgs, pageCount = pages\<rparr>)))"

text \<open>What one pass of the page loop adds to \<open>images\<close>.\<close>

fun pushedImage :: "pageOutcome \<Rightarrow> string list" where
  "pushedImage (Rendered base64) = [base64]"
| "pushedImage (RenderedUnlinkThrows base64) = [base64]"
| "pushedImage ConverterThrows = []"
| "pushedImage NoPath = []"
| "pushedImage ReadThrows = []"
subsection \<open>Page analysis\<close>

text \<open>
  The loop of \<open>analyzePDFImages\<close> over the images, from index \<open>i\<close>: the page summaries in
  order, or the first error thrown by a vision completion, with the requests made.
\<close>

fun analyzePages ::
  "world \<Rightarrow> string \<Rightarrow> nat \<Rightarrow> string list \<Rightarrow> (jsError + string list) \<times> netCall list" where
  "analyzePages world name i [] = (Inr [], [])"
| "analyzePages world name i (img # rest) =
     (case visionCompletion world name i img of
        Inl error \<Rightarrow> (Inl error, [VisionCall i])
      | Inr content \<Rightarrow>
          (let pageAnalysis = js_or content (''Unable to analyze page '' @ showNat (i + 1));
               summary = ''**Page '' @ showNat (i + 1) @ '':**'' @ newline @ pageAnalysis
           in case analyzePages world name (i + 1) rest of
                (Inl error, calls) \<Rightarrow> (Inl error, VisionCall i # calls)
              | (Inr summaries, calls) \<Rightarrow> (Inr (summary # summaries), VisionCall i # calls)))"

text \<open>The \<open>catch\<close> of \<open>analyzePDFImages\<close>: a 429 is replaced, anything else is rethrown.\<close>

definition analysisError :: "jsError \<Rightarrow> jsError" where
  "analysisError error =
     (if errStatus error = Some 429
      then newError ''API rate limit exceeded. Please wait a moment and try again.''
      else error)"

definition analyzePDFImages ::
  "world \<Rightarrow> string list \<Rightarrow> string \<Rightarrow> nat \<Rightarrow> (jsError + string) \<times> netCall list" where
  "analyzePDFImages world imgs name pages =
     (case analyzePages world name 0 imgs of
        (Inl error, calls) \<Rightarrow> (Inl (analysisError error), calls)
      | (Inr summaries, calls) \<Rightarrow>
          (let combinedAnalysis = joinWith (newline @ newline) summaries;
               request = OverallSummary name pages (length imgs) combinedAnalysis
           in case chatCompletion world request of
                Inl error \<Rightarrow> (Inl (analysisError error), calls @ [ChatCall request])
              | Inr content \<Rightarrow>
                  (let overallSummary = js_or content ''Unable to generate overall summary''
                   in (Inr (''**Document:** '' @ name @ '' ('' @ showNat pages
                            @ '' pages total, analyzed '' @ showNat (length imgs) @ '' pages)''
                            @ newline @ newline @ overallSummary @ newline @ newline @ ''---''
                            @ newline @ newline @ ''**Detailed Page Analysis:**''
                            @ newline @ newline @ combinedAnalysis),
                       calls @ [ChatCall request]))))"

subsection \<open>The handler\<close>

text \<open>The 429 response built when the limiter rejects.\<close>

definition tooManyRequests :: "RateLimitResult \<Rightarrow> response" where
  "tooManyRequests rateLimitResult =
     \<lparr>status = 429,
      responseHeaders =
        [(''Retry-After'',
            (case retryAfter rateLimitResult of
               Some seconds \<Rightarrow> HNumber seconds
             | None \<Rightarrow> HText ''undefined'')),
         (''X-RateLimit-Limit'', HText ''5''),
         (''X-RateLimit-Remaining'', HNumber (remaining rateLimitResult)),
         (''X-RateLimit-Reset'', HIsoDate (resultResetTime rateLimitResult))],
      body = TooManyRequests ''Too many requests. Please try again later.''
               (retryAfter rateLimitResult)\<rparr>"

text \<open>The variables the handler has set when it reaches the API key check.\<close>

record submission =
  textContent :: string
  documentName :: string
  isPDF :: bool
  pdfBuffer :: "string option"

text \<open>
  From \<open>formData.get('type')\<close> to the end of the \<open>url\<close> and \<open>file\<close> branches. \<open>Inl\<close> is
  an early \<open>return\<close> of a response.
\<close>

definition readSubmission ::
  "world \<Rightarrow> formData \<Rightarrow> int \<Rightarrow> (response + submission) \<times> netCall list" where
  "readSubmission world form now =
     (let kind = (case formType form of None \<Rightarrow> [] | Some t \<Rightarrow> t)
      in if kind = [] \<or> kind \<notin> set [''file'', ''url'']
         then (Inl (errorResponse
                 (''Invalid request type. Must be '' @ quoted ''file'' @ '' or '' @ quoted ''url'' @ ''.'')
                 400 None now), [])
         else if kind = ''url'' then
           (let url = (case formUrl form of None \<Rightarrow> [] | Some u \<Rightarrow> u)
            in if url = [] then (Inl (errorResponse ''No URL provided'' 400 None now), [])
               else
                 (case parseURL world url of
                    None \<Rightarrow> (Inl (errorResponse ''Invalid URL format'' 400 None now), [])
                  | Some protocol \<Rightarrow>
                      if protocol \<notin> set [''http:'', ''https:'']
                      then (Inl (errorResponse
                              ''Invalid URL protocol. Only HTTP and HTTPS are supported.''
                              400 None now), [])
                      else
                        (case extractTextFromUrl world url of
                           Inl error \<Rightarrow>
                             (Inl (errorResponse (''Failed to fetch URL: '' @ errMessage error)
                                     400 None now), [HttpGet url])
                         | Inr content \<Rightarrow>
                             (Inr \<lparr>textContent = content, documentName = url, isPDF = False,
                                    pdfBuffer = None\<rparr>, [HttpGet url]))))
         else
           (case formDocument form of
              None \<Rightarrow> (Inl (errorResponse ''No file provided'' 400 None now), [])
            | Some doc \<Rightarrow>
                if fileSize doc > 10 * 1024 * 1024
                then (Inl (errorResponse ''File too large. Maximum size is 10MB.'' 400 None now), [])
                else
                  (let lower = toLowerCase (fileName doc);
                       buffer = fileContent doc;
                       plain = Inr \<lparr>textContent = take 4000 (textDecode world buffer),
                                     documentName = fileName doc, isPDF = False,
                                     pdfBuffer = None\<rparr>
                   in if endsWith lower ''.pdf''
                      then (Inr \<lparr>textContent = [], documentName = fileName doc, isPDF = True,
                                  pdfBuffer = Some buffer\<rparr>, [])
                      else if endsWith lower ''.doc'' \<or> endsWith lower ''.docx'' then
                        (case extractTextFromDoc world buffer of
                           Inl parseError \<Rightarrow>
                             (Inl (errorResponse (''Failed to parse file: '' @ errMessage parseError)
                                     400 None now), [])
                         | Inr content \<Rightarrow>
                             (Inr \<lparr>textContent = content, documentName = fileName doc,
                                    isPDF = False, pdfBuffer = None\<rparr>, []))
                      else if endsWith lower ''.txt'' \<or> endsWith lower ''.md''
                              \<or> endsWith lower ''.csv'' \<or> endsWith lower ''.log''
                        then (plain, [])
                      else if startsWith (fileType doc) ''text/'' then (plain, [])
                      else (Inl (errorResponse
                              ''Unsupported file type. Supported: PDF, DOC, DOCX, TXT, MD, CSV, LOG''
                              400 None now), []))))"

definition apiKeyConfigured :: "world \<Rightarrow> bool" where
  "apiKeyConfigured world =
     (case envApiKey world of
        None \<Rightarrow> False
      | Some k \<Rightarrow> k \<noteq> [] \<and> k \<noteq> ''your-openai-api-key-here'' \<and> k \<noteq> ''dummy-key'')"

text \<open>
  The \<open>catch (pdfError)\<close> block: the last resort. \<open>calls\<close> are the requests made before
  the error was thrown.
\<close>

definition lastResort ::
  "world \<Rightarrow> string \<Rightarrow> string \<Rightarrow> int \<Rightarrow> jsError \<Rightarrow> netCall list
     \<Rightarrow> (response + string) \<times> netCall list" where
  "lastResort world name buffer now pdfError calls =
     (let unable = errorResponse
            ''Unable to process this PDF. It may contain only images or be corrupted.''
            400 None now
      in case parsePDF world buffer of
           Inl textError \<Rightarrow> (Inl unable, calls)
         | Inr data \<Rightarrow>
             (let content = take 8000 (pdfText data)
              in if content \<noteq> [] \<and> length content > 50
                 then
                   (let request = LastResortSummary name content
                    in case chatCompletion world request of
                         Inl textError \<Rightarrow> (Inl unable, calls @ [ChatCall request])
                       | Inr answer \<Rightarrow>
                           (Inr (js_or answer ''Unable to generate summary''),
                            calls @ [ChatCall request]))
                 else (Inl (errorResponse (''PDF processing failed: '' @ errMessage pdfError)
                              400 None now), calls)))"

text \<open>The branch \<open>if (isPDF && pdfBuffer)\<close> with its inner \<open>try\<close>.\<close>

definition summarizePDF ::
  "world \<Rightarrow> string \<Rightarrow> string \<Rightarrow> int \<Rightarrow> (response + string) \<times> netCall list" where
  "summarizePDF world name buffer now =
     (case convertPDFToImages world buffer of
        Inl pdfError \<Rightarrow> lastResort world name buffer now pdfError []
      | Inr converted \<Rightarrow>
          if length (images converted) > 0
          then
            (case analyzePDFImages world (images converted) name (pageCount converted) of
               (Inl pdfError, calls) \<Rightarrow> lastResort world name buffer now pdfError calls
             | (Inr summary, calls) \<Rightarrow> (Inr summary, calls))
          else
            (case parsePDF world buffer of
               Inl pdfError \<Rightarrow> lastResort world name buffer now pdfError []
             | Inr data \<Rightarrow>
                 (let content = take 8000 (pdfText data)
                  in if content \<noteq> [] \<and> length content > 50
                     then
                       (let request = TextOnlySummary name content
                        in case chatCompletion world request of
                             Inl pdfError \<Rightarrow>
                               lastResort world name buffer now pdfError [ChatCall request]
                           | Inr answer \<Rightarrow>
                               (Inr (''Note: This summary is based on extracted text only.''
                                     @ newline @ newline
                                     @ js_or answer ''Unable to generate summary''),
                                [ChatCall request]))
                     else (Inr (''Unable to process PDF '' @ quoted name
                                @ ''. The document may be image-based or corrupted.''), []))))"

text \<open>The \<open>catch (apiError)\<close> block.\<close>

definition apiErrorResponse :: "jsError \<Rightarrow> int \<Rightarrow> response" where
  "apiErrorResponse apiError now =
     (if errStatus apiError = Some 401
      then errorResponse ''Invalid OpenAI API key. Please check your configuration.'' 401 None now
      else if errStatus apiError = Some 429
      then errorResponse ''OpenAI API rate limit exceeded. Please wait a moment and try again.''
             429 (Some (RetryAfterSeconds 60)) now
      else if errStatus apiError = Some 503
      then errorResponse ''OpenAI service is temporarily unavailable. Please try again later.''
             503 None now
      else errorResponse
             (''API Error: '' @ (if errMessage apiError = [] then ''Unknown error occurred''
                                else errMessage apiError))
             500 None now)"

text \<open>The \<open>else\<close> branch for content that is not a PDF.\<close>

definition summarizeText ::
  "world \<Rightarrow> string \<Rightarrow> string \<Rightarrow> int \<Rightarrow> (response + string) \<times> netCall list" where
  "summarizeText world name content now =
     (if content = [] \<or> length (trim content) < 10
      then (Inl (errorResponse ''No meaningful content found to summarize'' 400 None now), [])
      else
        (let request = ContentSummary name content
         in case chatCompletion world request of
              Inl apiError \<Rightarrow> (Inl (apiErrorResponse apiError now), [ChatCall request])
            | Inr answer \<Rightarrow>
                (Inr (js_or answer ''Unable to generate summary''), [ChatCall request])))"

text \<open>
  \<open>POST\<close> of the document route: the response, the requests that left the process, and
  the limiter's map after the request.
\<close>

definition POST_document ::
  "world \<Rightarrow> NextRequest \<Rightarrow> int \<Rightarrow> requestLogs \<Rightarrow> response \<times> netCall list \<times> requestLogs" where
  "POST_document world request now logs =
     (case rateLimit heavyConfig now request None logs of
        (rateLimitResult, logs') \<Rightarrow>
          if \<not> allowed rateLimitResult then (tooManyRequests rateLimitResult, [], logs')
          else
            (case readFormData world of
               Inl error \<Rightarrow>
                 (errorResponse ''An unexpected error occurred. Please try again.'' 500
                    (if nodeEnv world = Some ''development'' then Some (Stack error) else None)
                    now, [], logs')
             | Inr form \<Rightarrow>
                 (case readSubmission world form now of
                    (Inl early, calls) \<Rightarrow> (early, calls, logs')
                  | (Inr sub, calls) \<Rightarrow>
                      if \<not> apiKeyConfigured world
                      then (errorResponse
                              ''OpenAI API key not configured. Please add your API key to the environment variables.''
                              500 None now, calls, logs')
                      else
                        (case (case (isPDF sub, pdfBuffer sub) of
                                 (True, Some buffer) \<Rightarrow>
                                   summarizePDF world (documentName sub) buffer now
                               | _ \<Rightarrow>
                                   summarizeText world (documentName sub) (textContent sub) now) of
                           (Inl early, calls') \<Rightarrow> (early, calls @ calls', logs')
                         | (Inr summary, calls') \<Rightarrow>
                             (\<lparr>status = 200, responseHeaders = [],
                               body = SummaryBody summary (documentName sub) now
                                        (remaining rateLimitResult)\<rparr>,
                              calls @ calls', logs')))))"

section \<open>Image route (POST of the image analysis endpoint)\<close>

text \<open>
  The descriptions built from templates are kept as the template and its values: a file
  size is shown by \<open>(size / 1024).toFixed(2)\<close>, which is not computed here. The handler
  does not import the limiter: it neither reads nor writes \<open>requestLogs\<close>.
\<close>

definition POST_image :: "world \<Rightarrow> response" where
  "POST_image world =
     (let plain = (\<lambda>message st. \<lparr>status = st, responseHeaders = [], body = PlainError message\<rparr>);
          ok = (\<lambda>d. \<lparr>status = 200, responseHeaders = [], body = DescriptionBody d\<rparr>)
      in case readFormData world of
           Inl error \<Rightarrow> plain ''Failed to process image. Please try again.'' 500
         | Inr form \<Rightarrow>
             (case formImage form of
                None \<Rightarrow> plain ''No image file provided'' 400
              | Some imageFile \<Rightarrow>
                  if fileType imageFile
                       \<notin> set [''image/jpeg'', ''image/jpg'', ''image/png'', ''image/gif'', ''image/webp'']
                  then plain ''Invalid file type. Please upload an image (JPG, PNG, GIF, or WebP)'' 400
                  else if fileSize imageFile > 20 * 1024 * 1024
                  then plain ''Image too large. Please upload an image smaller than 20MB'' 400
                  else if apiKeyConfigured world then
                    (case describeImage world imageFile of
                       Inr content \<Rightarrow> ok (ModelDescription (js_or content ''Unable to analyze image''))
                     | Inl apiError \<Rightarrow>
                         if errStatus apiError = Some 401
                         then plain ''Invalid OpenAI API key. Please check your configuration.'' 500
                         else if errStatus apiError = Some 429
                         then plain ''API rate limit exceeded. Please try again later.'' 429
                         else if errCode apiError = Some ''model_not_found''
                         then ok (ModelNotFound (fileName imageFile) (fileType imageFile)
                                    (fileSize imageFile))
                         else ok (ServiceUnavailable (fileName imageFile) (fileType imageFile)
                                    (fileSize imageFile)))
                  else ok (DemoMode (fileType imageFile) (fileSize imageFile))))"

text \<open>
  The two endpoints as one server: a request to a route at a time, on the one map that
  the module \<open>rate-limiter.ts\<close> holds for the whole process.
\<close>

datatype route = AnalyzeImage | AnalyzeDocument

fun serve :: "world \<Rightarrow> route \<Rightarrow> NextRequest \<Rightarrow> int \<Rightarrow> requestLogs \<Rightarrow> response \<times> requestLogs" where
  "serve world AnalyzeImage request now logs = (POST_image world, logs)"
| "serve world AnalyzeDocument request now logs =
     (case POST_document world request now logs of (resp, calls, logs') \<Rightarrow> (resp, logs'))"
section \<open>Example worlds and requests\<close>

text \<open>
  A world in which nothing is configured and every outside call fails, and variations of
  it used to run the handlers on concrete submissions.
\<close>

definition emptyForm :: formData where
  "emptyForm = \<lparr>formType = None, formUrl = None, formDocument = None, formImage = None\<rparr>"

definition quietWorld :: world where
  "quietWorld =
     \<lparr>envApiKey = None, nodeEnv = None, readFormData = Inr emptyForm,
      parseURL = (\<lambda>url. None),
      axiosGet = (\<lambda>url. Inl (newError ''Network Error'')),
      mammothExtract = (\<lambda>buffer. Inl (newError ''Could not find file in options'')),
      textDecode = (\<lambda>buffer. buffer),
      parsePDF = (\<lambda>buffer. Inl (newError ''Invalid PDF structure'')),
      fsPrepare = (\<lambda>buffer. None),
      convertPage = (\<lambda>buffer i. ConverterThrows),
      fsRemove = None,
      visionCompletion = (\<lambda>name i img. Inl (newError ''Connection error.'')),
      chatCompletion = (\<lambda>request. Inl (newError ''Connection error.'')),
      describeImage = (\<lambda>imageFile. Inl (newError ''Connection error.''))\<rparr>"

definition plainRequest :: NextRequest where
  "plainRequest = \<lparr>headers = [''user-agent'' \<mapsto> ''Mozilla/5.0'']\<rparr>"

text \<open>
  A scanned PDF of three pages: the key is configured, the parser finds seven characters
  of text, and the converter returns no path for any page.
\<close>

definition scanForm :: formData where
  "scanForm = emptyForm
     \<lparr>formType := Some ''file'',
      formDocument := Some \<lparr>fileName = ''scan.pdf'', fileSize = 20480,
                             fileType = ''application/pdf'', fileContent = ''%PDF-1.4''\<rparr>\<rparr>"

definition scannedPdfWorld :: world where
  "scannedPdfWorld = quietWorld
     \<lparr>envApiKey := Some ''sk-live'',
      readFormData := Inr scanForm,
      parsePDF := (\<lambda>buffer. Inr \<lparr>pdfText = ''Scanned'', numpages = 3\<rparr>),
      convertPage := (\<lambda>buffer i. NoPath)\<rparr>"

text \<open>
  A PDF of twelve pages of which the second makes the converter throw and the fourth
  comes back without a path; and a PDF for which the parser reports no pages.
\<close>

definition twelvePageWorld :: world where
  "twelvePageWorld = quietWorld
     \<lparr>parsePDF := (\<lambda>buffer. Inr \<lparr>pdfText = ''Annual report'', numpages = 12\<rparr>),
      convertPage := (\<lambda>buffer i. if i = 2 then ConverterThrows
                                   else if i = 4 then NoPath
                                   else Rendered (''page-'' @ showNat i))\<rparr>"

definition zeroPageWorld :: world where
  "zeroPageWorld = quietWorld
     \<lparr>parsePDF := (\<lambda>buffer. Inr \<lparr>pdfText = [], numpages = 0\<rparr>)\<rparr>"

text \<open>URL submissions: an \<open>ftp\<close> URL, and an \<open>http\<close> URL whose host refuses the connection.\<close>

definition ftpWorld :: world where
  "ftpWorld = quietWorld
     \<lparr>envApiKey := Some ''sk-live'',
      readFormData := Inr (emptyForm\<lparr>formType := Some ''url'',
                                      formUrl := Some ''ftp://example.com/notes.txt''\<rparr>),
      parseURL := (\<lambda>url. if url = ''ftp://example.com/notes.txt'' then Some ''ftp:'' else None),
      axiosGet := (\<lambda>url. Inr ''fetched'')\<rparr>"

definition refusedWorld :: world where
  "refusedWorld = quietWorld
     \<lparr>envApiKey := Some ''sk-live'',
      readFormData := Inr (emptyForm\<lparr>formType := Some ''url'',
                                      formUrl := Some ''http://localhost:9/''\<rparr>),
      parseURL := (\<lambda>url. if url = ''http://localhost:9/'' then Some ''http:'' else None),
      axiosGet := (\<lambda>url. Inl \<lparr>errMessage = ''connect ECONNREFUSED 127.0.0.1:9'',
                                 errCode = Some ''ECONNREFUSED'', errStatus = None,
                                 errResponseStatus = None\<rparr>)\<rparr>"

text \<open>An image upload with no API key configured (demo mode).\<close>

definition imageWorld :: world where
  "imageWorld = quietWorld
     \<lparr>readFormData := Inr (emptyForm
        \<lparr>formImage := Some \<lparr>fileName = ''cat.png'', fileSize = 2048,
                               fileType = ''image/png'', fileContent = ''PNG''\<rparr>\<rparr>)\<rparr>"

section \<open>Properties of the admission controller\<close>

lemma rateLimitId_fresh:
  assumes "logs ident = None \<or> (\<exists>l. logs ident = Some l \<and> resetTime l < now)"
  shows "rateLimitId config now ident logs =
          (\<lparr>allowed = True, remaining = maxRequests config - 1,
            resultResetTime = now + interval config, retryAfter = None\<rparr>,
           logs(ident \<mapsto> \<lparr>count = 1, resetTime = now + interval config\<rparr>))"
  using assms by (auto simp: rateLimitId_def)

lemma rateLimitId_open:
  assumes "logs ident = Some \<lparr>count = c, resetTime = R\<rparr>" and "now \<le> R"
  shows "rateLimitId config now ident logs =
          (if c < maxRequests config
           then (\<lparr>allowed = True, remaining = maxRequests config - (c + 1),
                  resultResetTime = R, retryAfter = None\<rparr>,
                 logs(ident \<mapsto> \<lparr>count = c + 1, resetTime = R\<rparr>))
           else (\<lparr>allowed = False, remaining = 0, resultResetTime = R,
                  retryAfter = Some (ceilSeconds (R - now))\<rparr>, logs))"
  using assms by (auto simp: rateLimitId_def Let_def)

lemma admits_open:
  assumes "logs ident = Some \<lparr>count = c, resetTime = R\<rparr>"
      and "\<forall>t\<in>set ts. t \<le> R"
      and "admits config ident ts logs = (rs, logs')"
  shows "length rs = length ts
       \<and> logs' ident = Some \<lparr>count = max c (min (c + int (length ts)) (maxRequests config)),
                              resetTime = R\<rparr>
       \<and> (\<forall>k<length ts. rs ! k =
            (if c + int k < maxRequests config
             then \<lparr>allowed = True, remaining = maxRequests config - (c + int k + 1),
                   resultResetTime = R, retryAfter = None\<rparr>
             else \<lparr>allowed = False, remaining = 0, resultResetTime = R,
                   retryAfter = Some (ceilSeconds (R - ts ! k))\<rparr>))"
  using assms
proof (induction ts arbitrary: c logs rs)
  case Nil
  then show ?case by simp
next
  case (Cons t ts)
  have tR: "t \<le> R" and rest: "\<forall>u\<in>set ts. u \<le> R"
    using Cons.prems(2) by simp_all
  obtain r l1 where step: "rateLimitId config t ident logs = (r, l1)"
    by (cases "rateLimitId config t ident logs")
  obtain rs1 where run: "admits config ident ts l1 = (rs1, logs')" and rs: "rs = r # rs1"
    using Cons.prems(3) step by (auto split: prod.splits)
  have opened: "rateLimitId config t ident logs =
          (if c < maxRequests config
           then (\<lparr>allowed = True, remaining = maxRequests config - (c + 1),
                  resultResetTime = R, retryAfter = None\<rparr>,
                 logs(ident \<mapsto> \<lparr>count = c + 1, resetTime = R\<rparr>))
           else (\<lparr>allowed = False, remaining = 0, resultResetTime = R,
                  retryAfter = Some (ceilSeconds (R - t))\<rparr>, logs))"
    using Cons.prems(1) tR by (rule rateLimitId_open)
  show ?case
  proof (cases "c < maxRequests config")
    case True
    with opened step
    have r: "r = \<lparr>allowed = True, remaining = maxRequests config - (c + 1),
                   resultResetTime = R, retryAfter = None\<rparr>"
      and l1: "l1 ident = Some \<lparr>count = c + 1, resetTime = R\<rparr>"
      by auto
    have ih: "length rs1 = length ts
       \<and> logs' ident = Some \<lparr>count = max (c + 1) (min (c + 1 + int (length ts)) (maxRequests config)),
                              resetTime = R\<rparr>
       \<and> (\<forall>k<length ts. rs1 ! k =
            (if c + 1 + int k < maxRequests config
             then \<lparr>allowed = True, remaining = maxRequests config - (c + 1 + int k + 1),
                   resultResetTime = R, retryAfter = None\<rparr>
             else \<lparr>allowed = False, remaining = 0, resultResetTime = R,
                   retryAfter = Some (ceilSeconds (R - ts ! k))\<rparr>))"
      using l1 rest run by (rule Cons.IH)
    from ih True r rs show ?thesis
      by (auto simp: nth_Cons' add.assoc)
  next
    case False
    with opened step
    have r: "r = \<lparr>allowed = False, remaining = 0, resultResetTime = R,
                   retryAfter = Some (ceilSeconds (R - t))\<rparr>"
      and l1: "l1 ident = Some \<lparr>count = c, resetTime = R\<rparr>"
      using Cons.prems(1) by auto
    have ih: "length rs1 = length ts
       \<and> logs' ident = Some \<lparr>count = max c (min (c + int (length ts)) (maxRequests config)),
                              resetTime = R\<rparr>
       \<and> (\<forall>k<length ts. rs1 ! k =
            (if c + int k < maxRequests config
             then \<lparr>allowed = True, remaining = maxRequests config - (c + int k + 1),
                   resultResetTime = R, retryAfter = None\<rparr>
             else \<lparr>allowed = False, remaining = 0, resultResetTime = R,
                   retryAfter = Some (ceilSeconds (R - ts ! k))\<rparr>))"
      using l1 rest run by (rule Cons.IH)
    from ih False r rs show ?thesis
      by (auto simp: nth_Cons')
  qed
qed

lemma countsBounded_rateLimitId:
  assumes "0 < maxRequests config" and "countsBounded config logs"
  shows "countsBounded config (snd (rateLimitId config now ident logs))"
proof (unfold countsBounded_def, intro allI impI)
  fix key entry
  assume stored: "snd (rateLimitId config now ident logs) key = Some entry"
  have old: "\<And>e. logs key = Some e \<Longrightarrow> 1 \<le> count e \<and> count e \<le> maxRequests config"
    using assms(2) by (simp add: countsBounded_def)
  show "1 \<le> count entry \<and> count entry \<le> maxRequests config"
  proof (cases "key = ident")
    case False
    then have "logs key = Some entry"
      using stored by (auto simp: rateLimitId_def Let_def split: option.splits if_splits)
    then show ?thesis by (rule old)
  next
    case True
    show ?thesis
    proof (cases "logs ident")
      case None
      with stored True assms(1) show ?thesis
        by (auto simp: rateLimitId_def)
    next
      case (Some e)
      with stored True assms(1) old [of e] show ?thesis
        by (auto simp: rateLimitId_def Let_def split: if_splits)
    qed
  qed
qed

lemma countsBounded_cleanup:
  assumes "countsBounded config logs"
  shows "countsBounded config (cleanup now logs)"
  using assms
  by (auto simp: countsBounded_def cleanup_def split: option.splits if_splits)

lemma countsBounded_applyEvent:
  assumes "0 < maxRequests config" and "countsBounded config logs"
  shows "countsBounded config (applyEvent config ev logs)"
  using assms
  by (cases ev) (simp_all add: countsBounded_rateLimitId countsBounded_cleanup)

lemma countsBounded_runEvents:
  assumes "0 < maxRequests config" and "countsBounded config logs"
  shows "countsBounded config (runEvents config evs logs)"
  using assms(2) unfolding runEvents_def
  by (induction evs arbitrary: logs) (simp_all add: countsBounded_applyEvent assms(1))

lemma countsBounded_empty: "countsBounded config Map.empty"
  by (simp add: countsBounded_def)

text \<open>
  C1. Take a limiter with ceiling \<open>N = maxRequests config > 0\<close> and window
  \<open>W = interval config\<close>, and an identifier that has no entry or an expired one at time
  \<open>t0\<close>. The call at \<open>t0\<close> opens a window that resets at \<open>t0 + W\<close>. Let \<open>N\<close> more
  calls follow at times \<open>ts\<close> that are not past \<open>t0 + W\<close>. Then each of the first \<open>N\<close>
  calls returns \<open>allowed = true\<close>; call \<open>N + 1\<close> returns \<open>allowed = false\<close>,
  \<open>remaining = 0\<close> and \<open>retryAfter = ceil((resetAt - now) / 1000)\<close>; and a call at a
  time \<open>t1\<close> past \<open>t0 + W\<close> stores a fresh entry with \<open>count = 1\<close> and returns
  \<open>allowed = true\<close> with \<open>remaining = N - 1\<close>.
\<close>

theorem rateLimit_window_budget:
  assumes pos: "0 < maxRequests config"
      and fresh: "logs ident = None \<or> (\<exists>l. logs ident = Some l \<and> resetTime l < t0)"
      and len: "int (length ts) = maxRequests config"
      and within: "\<forall>t\<in>set ts. t \<le> t0 + interval config"
      and run: "admits config ident (t0 # ts) logs = (rs, logs')"
      and after: "t0 + interval config < t1"
  shows "(\<forall>k<nat (maxRequests config). allowed (rs ! k))
       \<and> rs ! nat (maxRequests config) =
           \<lparr>allowed = False, remaining = 0, resultResetTime = t0 + interval config,
            retryAfter = Some \<lceil>real_of_int (t0 + interval config - last ts) / 1000\<rceil>\<rparr>
       \<and> rateLimitId config t1 ident logs' =
           (\<lparr>allowed = True, remaining = maxRequests config - 1,
             resultResetTime = t1 + interval config, retryAfter = None\<rparr>,
            logs'(ident \<mapsto> \<lparr>count = 1, resetTime = t1 + interval config\<rparr>))"
proof -
  let ?N = "maxRequests config" and ?R = "t0 + interval config"
  let ?l1 = "logs(ident \<mapsto> \<lparr>count = 1, resetTime = ?R\<rparr>)"
  let ?r0 = "\<lparr>allowed = True, remaining = ?N - 1, resultResetTime = ?R, retryAfter = None\<rparr>"
  have first: "rateLimitId config t0 ident logs = (?r0, ?l1)"
    using fresh by (rule rateLimitId_fresh)
  obtain rs1 where run1: "admits config ident ts ?l1 = (rs1, logs')" and rs: "rs = ?r0 # rs1"
    using run first by (auto split: prod.splits)
  have l1: "?l1 ident = Some \<lparr>count = 1, resetTime = ?R\<rparr>"
    by simp
  have tail: "length rs1 = length ts
       \<and> logs' ident = Some \<lparr>count = max 1 (min (1 + int (length ts)) ?N), resetTime = ?R\<rparr>
       \<and> (\<forall>k<length ts. rs1 ! k =
            (if 1 + int k < ?N
             then \<lparr>allowed = True, remaining = ?N - (1 + int k + 1),
                   resultResetTime = ?R, retryAfter = None\<rparr>
             else \<lparr>allowed = False, remaining = 0, resultResetTime = ?R,
                   retryAfter = Some (ceilSeconds (?R - ts ! k))\<rparr>))"
    using l1 within run1 by (rule admits_open)
  have nonempty: "ts \<noteq> []" and n: "length ts = nat ?N"
    using pos len by auto
  have a: "\<forall>k<nat ?N. allowed (rs ! k)"
  proof (intro allI impI)
    fix k assume k: "k < nat ?N"
    show "allowed (rs ! k)"
    proof (cases k)
      case 0
      then show ?thesis by (simp add: rs)
    next
      case (Suc j)
      with k n have "j < length ts" and "1 + int j < ?N" by auto
      with tail Suc show ?thesis by (simp add: rs)
    qed
  qed
  have b: "rs ! nat ?N = \<lparr>allowed = False, remaining = 0, resultResetTime = ?R,
            retryAfter = Some \<lceil>real_of_int (?R - last ts) / 1000\<rceil>\<rparr>"
  proof -
    obtain j where j: "nat ?N = Suc j" using pos by (cases "nat ?N") auto
    with n have jl: "j < length ts" and jn: "\<not> 1 + int j < ?N" and jlast: "ts ! j = last ts"
      using nonempty by (auto simp: last_conv_nth)
    from tail jl jn have "rs1 ! j = \<lparr>allowed = False, remaining = 0, resultResetTime = ?R,
                   retryAfter = Some (ceilSeconds (?R - ts ! j))\<rparr>"
      by simp
    then show ?thesis by (simp add: rs j jlast ceilSeconds_def)
  qed
  have expired: "logs' ident = None \<or> (\<exists>l. logs' ident = Some l \<and> resetTime l < t1)"
    using tail after by simp
  have c: "rateLimitId config t1 ident logs' =
           (\<lparr>allowed = True, remaining = ?N - 1,
             resultResetTime = t1 + interval config, retryAfter = None\<rparr>,
            logs'(ident \<mapsto> \<lparr>count = 1, resetTime = t1 + interval config\<rparr>))"
    using expired by (rule rateLimitId_fresh)
  from a b c show ?thesis by blast
qed

text \<open>
  The theorem at a limiter of two requests per minute: calls at 1000, 2000 and 3500 ms on
  an empty map, then a call at 61001 ms.
\<close>

theorem rateLimit_window_budget_witness:
  "admits \<lparr>interval = 60000, maxRequests = 2\<rparr> ''10.0.0.7'' [1000, 2000, 3500] Map.empty =
     ([\<lparr>allowed = True, remaining = 1, resultResetTime = 61000, retryAfter = None\<rparr>,
       \<lparr>allowed = True, remaining = 0, resultResetTime = 61000, retryAfter = None\<rparr>,
       \<lparr>allowed = False, remaining = 0, resultResetTime = 61000, retryAfter = Some 58\<rparr>],
      [''10.0.0.7'' \<mapsto> \<lparr>count = 2, resetTime = 61000\<rparr>])
   \<and> fst (rateLimitId \<lparr>interval = 60000, maxRequests = 2\<rparr> 61001 ''10.0.0.7''
           [''10.0.0.7'' \<mapsto> \<lparr>count = 2, resetTime = 61000\<rparr>]) =
       \<lparr>allowed = True, remaining = 1, resultResetTime = 121001, retryAfter = None\<rparr>"
proof -
  let ?cfg = "\<lparr>interval = 60000, maxRequests = 2\<rparr>"
  let ?rs = "[\<lparr>allowed = True, remaining = 1, resultResetTime = 61000, retryAfter = None\<rparr>,
       \<lparr>allowed = True, remaining = 0, resultResetTime = 61000, retryAfter = None\<rparr>,
       \<lparr>allowed = False, remaining = 0, resultResetTime = 61000, retryAfter = Some 58\<rparr>]"
  let ?logs' = "[''10.0.0.7'' \<mapsto> \<lparr>count = 2, resetTime = 61000\<rparr>]"
  have h1: "0 < maxRequests ?cfg" by simp
  have h2: "(Map.empty :: requestLogs) ''10.0.0.7'' = None
            \<or> (\<exists>l. (Map.empty :: requestLogs) ''10.0.0.7'' = Some l \<and> resetTime l < 1000)"
    by simp
  have h3: "int (length [2000, 3500 :: int]) = maxRequests ?cfg" by simp
  have h4: "\<forall>t\<in>set [2000, 3500 :: int]. t \<le> 1000 + interval ?cfg" by simp
  have h5: "admits ?cfg ''10.0.0.7'' (1000 # [2000, 3500]) Map.empty = (?rs, ?logs')"
    by (simp add: rateLimitId_def ceilSeconds_def)
  have h6: "1000 + interval ?cfg < (61001 :: int)" by simp
  from rateLimit_window_budget [OF h1 h2 h3 h4 h5 h6] h5 show ?thesis
    by simp
qed

text \<open>
  C2. Let the limiter have a ceiling \<open>maxRequests config > 0\<close> and let \<open>logs\<close> be any map
  reached from the empty one by calls (under any identifiers, at any times) and sweeps.
  One more call under \<open>ident\<close> at time \<open>now\<close> leaves an entry for \<open>ident\<close> whose count
  is at least 1 (so never negative) and at most the ceiling. If the window was open
  (an entry that is not expired at \<open>now\<close>), the count has not decreased and the window
  has the same reset time; otherwise the new window starts at count 1. When the call is
  allowed, the \<open>remaining\<close> it returns is the ceiling minus the stored count.
\<close>

theorem rateLimit_count_invariant:
  assumes pos: "0 < maxRequests config"
      and reach: "logs = runEvents config evs Map.empty"
      and call: "rateLimitId config now ident logs = (r, logs')"
  shows "(\<exists>entry'. logs' ident = Some entry'
           \<and> 0 \<le> count entry' \<and> 1 \<le> count entry' \<and> count entry' \<le> maxRequests config
           \<and> (allowed r \<longrightarrow> remaining r = maxRequests config - count entry')
           \<and> (case logs ident of
                 None \<Rightarrow> count entry' = 1
               | Some entry \<Rightarrow>
                   if resetTime entry < now then count entry' = 1
                   else count entry \<le> count entry' \<and> resetTime entry' = resetTime entry))"
proof -
  have "countsBounded config logs"
    unfolding reach using pos countsBounded_empty by (rule countsBounded_runEvents)
  then have b: "\<And>entry. logs ident = Some entry \<Longrightarrow> 1 \<le> count entry \<and> count entry \<le> maxRequests config"
    by (simp add: countsBounded_def)
  show ?thesis
  proof (cases "logs ident")
    case None
    with call pos show ?thesis
      by (auto simp: rateLimitId_def)
  next
    case (Some entry)
    with call pos b [OF Some] show ?thesis
      by (auto simp: rateLimitId_def Let_def split: if_splits)
  qed
qed

text \<open>
  The theorem on the heavy preset after two calls of one client, a sweep and a call of
  another client: the third call of the first client is allowed with \<open>remaining = 2\<close>.
\<close>

theorem rateLimit_count_invariant_witness:
  "rateLimitId heavyConfig 900 ''10.0.0.7''
     (runEvents heavyConfig [Call ''10.0.0.7'' 100, Call ''10.0.0.7'' 200, Sweep 300, Call ''10.0.0.8'' 400]
        Map.empty) =
   (\<lparr>allowed = True, remaining = 2, resultResetTime = 60100, retryAfter = None\<rparr>,
    [''10.0.0.7'' \<mapsto> \<lparr>count = 2, resetTime = 60100\<rparr>,
     ''10.0.0.8'' \<mapsto> \<lparr>count = 1, resetTime = 60400\<rparr>,
     ''10.0.0.7'' \<mapsto> \<lparr>count = 3, resetTime = 60100\<rparr>])
  \<and> (\<exists>entry'. [''10.0.0.7'' \<mapsto> \<lparr>count = 2, resetTime = 60100\<rparr>,
     ''10.0.0.8'' \<mapsto> \<lparr>count = 1, resetTime = 60400\<rparr>,
     ''10.0.0.7'' \<mapsto> \<lparr>count = 3, resetTime = 60100\<rparr>] ''10.0.0.7'' = Some entry'
        \<and> 1 \<le> count entry' \<and> count entry' \<le> 5)"
proof -
  let ?evs = "[Call ''10.0.0.7'' 100, Call ''10.0.0.7'' 200, Sweep 300, Call ''10.0.0.8'' 400]"
  let ?logs = "runEvents heavyConfig ?evs Map.empty"
  let ?r = "\<lparr>allowed = True, remaining = 2, resultResetTime = 60100, retryAfter = None\<rparr>"
  let ?logs' = "[''10.0.0.7'' \<mapsto> \<lparr>count = 2, resetTime = 60100\<rparr>,
     ''10.0.0.8'' \<mapsto> \<lparr>count = 1, resetTime = 60400\<rparr>,
     ''10.0.0.7'' \<mapsto> \<lparr>count = 3, resetTime = 60100\<rparr>]"
  have h1: "0 < maxRequests heavyConfig" by (simp add: heavyConfig_def)
  have h2: "?logs = runEvents heavyConfig ?evs Map.empty" by simp
  have h3: "rateLimitId heavyConfig 900 ''10.0.0.7'' ?logs = (?r, ?logs')"
    by (simp add: runEvents_def rateLimitId_def cleanup_def heavyConfig_def fun_upd_def
          cong: if_cong)
  from rateLimit_count_invariant [OF h1 h2 h3] h3 show ?thesis
    by (simp add: heavyConfig_def)
qed

text \<open>
  C9. A request with no explicit identifier and neither an \<open>x-forwarded-for\<close> nor an
  \<open>x-real-ip\<close> header is keyed under \<open>'anonymous'\<close>. Hence any series of such requests,
  whatever else distinguishes their senders, gets exactly the results and leaves exactly
  the map of the same series of calls made by the one client \<open>'anonymous'\<close>: they share
  one window and one budget.
\<close>

theorem anonymous_shared_budget:
  assumes "\<forall>request\<in>set (map fst calls).
             headers request ''x-forwarded-for'' = None \<and> headers request ''x-real-ip'' = None"
  shows "(\<forall>request\<in>set (map fst calls). clientId request None = ''anonymous'')
       \<and> serveAll config calls logs = admits config ''anonymous'' (map snd calls) logs"
proof -
  have key: "\<forall>request\<in>set (map fst calls). clientId request None = ''anonymous''"
    using assms by (simp add: clientId_def js_or_def)
  from key have "serveAll config calls logs = admits config ''anonymous'' (map snd calls) logs"
  proof (induction calls arbitrary: logs)
    case Nil
    then show ?case by simp
  next
    case (Cons call calls)
    obtain request now where call: "call = (request, now)" by (cases call)
    from Cons.prems call have here: "clientId request None = ''anonymous''"
      and rest: "\<forall>request\<in>set (map fst calls). clientId request None = ''anonymous''"
      by simp_all
    show ?case
      by (simp add: call rateLimit_def here Cons.IH [OF rest])
  qed
  with key show ?thesis by simp
qed

text \<open>
  Two senders that differ in their \<open>user-agent\<close> header, on a limiter of one request per
  minute: the second sender is rejected because of the first one's request.
\<close>

theorem anonymous_shared_budget_witness:
  "serveAll \<lparr>interval = 60000, maxRequests = 1\<rparr>
     [(\<lparr>headers = [''user-agent'' \<mapsto> ''curl'']\<rparr>, 1000),
      (\<lparr>headers = [''user-agent'' \<mapsto> ''Mozilla'']\<rparr>, 2000)] Map.empty =
   ([\<lparr>allowed = True, remaining = 0, resultResetTime = 61000, retryAfter = None\<rparr>,
     \<lparr>allowed = False, remaining = 0, resultResetTime = 61000, retryAfter = Some 59\<rparr>],
    [''anonymous'' \<mapsto> \<lparr>count = 1, resetTime = 61000\<rparr>])"
proof -
  let ?calls = "[(\<lparr>headers = [''user-agent'' \<mapsto> ''curl'']\<rparr>, 1000 :: int),
      (\<lparr>headers = [''user-agent'' \<mapsto> ''Mozilla'']\<rparr>, 2000)]"
  have h: "\<forall>request\<in>set (map fst ?calls).
             headers request ''x-forwarded-for'' = None \<and> headers request ''x-real-ip'' = None"
    by simp
  from anonymous_shared_budget [OF h, of "\<lparr>interval = 60000, maxRequests = 1\<rparr>" Map.empty]
  show ?thesis
    by (simp add: rateLimitId_def ceilSeconds_def)
qed

section \<open>Properties of the speaker attribution\<close>





















lemma trim_Nil_iff: "trim s = [] \<longleftrightarrow> (\<forall>c\<in>set s. isSpace c)"
proof -
  have "trim s = [] \<longleftrightarrow> (\<forall>c\<in>set (dropWhile isSpace s). isSpace c)"
    by (simp add: trim_def dropWhile_eq_Nil_conv)
  also have "\<dots> \<longleftrightarrow> dropWhile isSpace s = []"
  proof
    assume all: "\<forall>c\<in>set (dropWhile isSpace s). isSpace c"
    show "dropWhile isSpace s = []"
    proof (rule ccontr)
      assume ne: "dropWhile isSpace s \<noteq> []"
      then have "\<not> isSpace (hd (dropWhile isSpace s))" by (rule hd_dropWhile)
      moreover have "hd (dropWhile isSpace s) \<in> set (dropWhile isSpace s)"
        using ne by simp
      ultimately show False using all by blast
    qed
  next
    assume e: "dropWhile isSpace s = []"
    show "\<forall>c\<in>set (dropWhile isSpace s). isSpace c"
      unfolding e by simp
  qed
  also have "\<dots> \<longleftrightarrow> (\<forall>c\<in>set s. isSpace c)"
    by (simp add: dropWhile_eq_Nil_conv)
  finally show ?thesis .
qed

lemma filter_dropWhile_isSpace:
  "filter (\<lambda>c. \<not> isSpace c) (dropWhile isSpace s) = filter (\<lambda>c. \<not> isSpace c) s"
  by (induction s) simp_all

lemma splitSentences_keeps_nonspace:
  "filter (\<lambda>c. \<not> isSpace c) (concat (splitSentences cur s)) =
     filter (\<lambda>c. \<not> isSpace c) (cur @ s)"
  by (induction cur s rule: splitSentences.induct) (simp_all add: filter_dropWhile_isSpace)

lemma splitSentences_blank:
  assumes "\<forall>c\<in>set cur. isSpace c" and "\<forall>c\<in>set s. isSpace c"
  shows "splitSentences cur s = [cur @ s]"
  using assms
proof (induction s arbitrary: cur)
  case Nil
  then show ?case by simp
next
  case (Cons c cs)
  have "cur \<noteq> [] \<Longrightarrow> \<not> isTerminal (last cur)"
  proof -
    assume "cur \<noteq> []"
    then have "isSpace (last cur)" using Cons.prems(1) by simp
    then show ?thesis by (auto simp: isSpace_def isTerminal_def)
  qed
  then show ?case using Cons by auto
qed

lemma sentencesOf_Nil_iff: "sentencesOf t = [] \<longleftrightarrow> (\<forall>c\<in>set t. isSpace c)"
proof
  assume "sentencesOf t = []"
  then have "\<forall>piece\<in>set (splitSentences [] t). \<forall>c\<in>set piece. isSpace c"
    by (simp add: sentencesOf_def filter_empty_conv trim_Nil_iff)
  then have "filter (\<lambda>c. \<not> isSpace c) (concat (splitSentences [] t)) = []"
    by (auto simp: filter_empty_conv)
  then have "filter (\<lambda>c. \<not> isSpace c) t = []"
    by (simp add: splitSentences_keeps_nonspace)
  then show "\<forall>c\<in>set t. isSpace c"
    by (simp add: filter_empty_conv)
next
  assume "\<forall>c\<in>set t. isSpace c"
  then show "sentencesOf t = []"
    by (simp add: sentencesOf_def splitSentences_blank trim_Nil_iff)
qed

lemma diarizeSentence_appends:
  assumes "trim sentence \<noteq> []"
  shows "map text (snd (diarizeSentence sentence index (cur, diarized))) =
           map text diarized @ [trim sentence]"
  using assms by (simp add: diarizeSentence_def Let_def)

lemma forEachSentence_texts:
  assumes "\<forall>s\<in>set ss. trim s \<noteq> []"
  shows "map text (snd (forEachSentence index ss (cur, diarized))) =
           map text diarized @ map trim ss"
  using assms
proof (induction ss arbitrary: index cur diarized)
  case Nil
  then show ?case by simp
next
  case (Cons s ss)
  obtain cur' diarized' where step: "diarizeSentence s index (cur, diarized) = (cur', diarized')"
    by (cases "diarizeSentence s index (cur, diarized)")
  have "map text diarized' = map text diarized @ [trim s]"
    using diarizeSentence_appends [of s index cur diarized] Cons.prems step by simp
  then show ?case using Cons step by simp
qed










text \<open>
  C4. On the transcript \<open>Is this ready? Yes it is. I will send it tomorrow.\<close> the route
  returns three segments: the first speaker with \<open>Is this ready?\<close>, then the second
  speaker with \<open>Yes it is.\<close> and with \<open>I will send it tomorrow.\<close>
\<close>

theorem performDiarization_example:
  "performDiarization ''Is this ready? Yes it is. I will send it tomorrow.'' =
     [\<lparr>speaker = ''Speaker 1'', text = ''Is this ready?''\<rparr>,
      \<lparr>speaker = ''Speaker 2'', text = ''Yes it is.''\<rparr>,
      \<lparr>speaker = ''Speaker 2'', text = ''I will send it tomorrow.''\<rparr>]"
  by code_simp

text \<open>
  C10. The function returns for every transcript: it has no failing branch (every read of
  \<open>prevSentence\<close> is guarded), and its result has exactly one segment for each non-blank
  piece of the transcript, holding the trimmed piece. The result is empty exactly when
  the transcript consists of whitespace only (the empty transcript included).
\<close>

theorem performDiarization_total:
  "map text (performDiarization transcript) = map trim (sentencesOf transcript)
   \<and> (performDiarization transcript = [] \<longleftrightarrow> (\<forall>c\<in>set transcript. isSpace c))"
proof -
  have texts: "map text (performDiarization transcript) = map trim (sentencesOf transcript)"
    unfolding performDiarization_def
    using forEachSentence_texts [of "sentencesOf transcript" 0 "''Speaker 1''" "[]"]
    by (simp add: sentencesOf_def)
  have "performDiarization transcript = [] \<longleftrightarrow> map text (performDiarization transcript) = []"
    by simp
  also have "\<dots> \<longleftrightarrow> sentencesOf transcript = []"
    unfolding texts by simp
  also have "\<dots> \<longleftrightarrow> (\<forall>c\<in>set transcript. isSpace c)"
    by (rule sentencesOf_Nil_iff)
  finally show ?thesis using texts by simp
qed

text \<open>The theorem on a transcript of a space, a tab, a line feed and a space.\<close>

theorem performDiarization_total_witness:
  "performDiarization [CHR '' '', CHR 0x09, CHR 0x0A, CHR '' ''] = []"
proof -
  have "\<forall>c\<in>set [CHR '' '', CHR 0x09, CHR 0x0A, CHR '' '']. isSpace c"
    by (simp add: isSpace_def)
  with performDiarization_total [of "[CHR '' '', CHR 0x09, CHR 0x0A, CHR '' '']"]
  show ?thesis by blast
qed

section \<open>Properties of the document and image routes\<close>

lemma convertPages_eq:
  "convertPages converter maxPages i imgs =
     imgs @ concat (map (\<lambda>k. pushedImage (converter k)) [i..<Suc maxPages])"
proof (induction converter maxPages i imgs rule: convertPages.induct)
  case (1 converter maxPages i imgs)
  show ?case
  proof (cases "i \<le> maxPages")
    case True
    then have range: "[i..<Suc maxPages] = i # [i + 1..<Suc maxPages]"
      by (simp add: upt_conv_Cons del: upt_Suc)
    have step: "convertPages converter maxPages i imgs =
                  convertPages converter maxPages (i + 1) (imgs @ pushedImage (converter i))"
      using True by (subst convertPages.simps) (simp split: pageOutcome.splits)
    have "convertPages converter maxPages (i + 1) (imgs @ pushedImage (converter i)) =
            (imgs @ pushedImage (converter i))
              @ concat (map (\<lambda>k. pushedImage (converter k)) [i + 1..<Suc maxPages])"
      using "1.IH" [OF True] by (simp split: pageOutcome.splits del: upt_Suc)
    then show ?thesis
      unfolding step range by simp
  next
    case False
    then show ?thesis
      by (subst convertPages.simps) simp
  qed
qed

lemma length_pushedImage: "length (pushedImage outcome) \<le> 1"
  by (cases outcome) simp_all

lemma length_concat_pushed:
  "length (concat (map (\<lambda>k. pushedImage (converter k)) ks)) \<le> length ks"
proof (induction ks)
  case Nil
  then show ?case by simp
next
  case (Cons k ks)
  have "length (pushedImage (converter k)) \<le> 1" by (rule length_pushedImage)
  with Cons show ?case by simp
qed

lemma convertPages_length:
  "length (convertPages converter maxPages 1 []) \<le> maxPages"
proof -
  have "length (concat (map (\<lambda>k. pushedImage (converter k)) [1..<Suc maxPages]))
          \<le> length [1..<Suc maxPages]"
    by (rule length_concat_pushed)
  then show ?thesis by (simp add: convertPages_eq del: upt_Suc)
qed

text \<open>
  C7, as worded, fails on the page count: the extractor computes \<open>pdfData.numpages || 1\<close>,
  so for a PDF in which the parser finds no pages it reports one page.
\<close>

theorem convertPDFToImages_page_count_counterexample:
  "\<exists>result data. convertPDFToImages zeroPageWorld ''%PDF-1.4'' = Inr result
      \<and> parsePDF zeroPageWorld ''%PDF-1.4'' = Inr data
      \<and> pageCount result = 1 \<and> numpages data = 0"
  by (simp add: convertPDFToImages_def zeroPageWorld_def quietWorld_def)

text \<open>
  C7, amended. The extractor fails only when preparing the temporary files, parsing the
  PDF or removing the temporary directory fails; the outcome of a page never makes it
  fail. When it returns, it returns at most 5 images, the page count it reports is that of
  the parser, except that a count of 0 is reported as 1 (so a 12-page PDF gives at most 5
  images and \<open>pageCount = 12\<close>), and the images are exactly those of the passes among the
  first \<open>min pageCount 5\<close> pages that pushed one, in page order: a pass that fails is
  skipped.
\<close>

theorem convertPDFToImages_cap:
  "(case convertPDFToImages world buffer of
      Inl error \<Rightarrow>
        fsPrepare world buffer = Some error \<or> parsePDF world buffer = Inl error
        \<or> fsRemove world = Some error
    | Inr result \<Rightarrow>
        fsPrepare world buffer = None \<and> fsRemove world = None
        \<and> (\<exists>data. parsePDF world buffer = Inr data
              \<and> pageCount result = (if numpages data = 0 then 1 else numpages data)
              \<and> (numpages data = 12 \<longrightarrow> pageCount result = 12))
        \<and> length (images result) \<le> 5
        \<and> length (images result) \<le> pageCount result
        \<and> images result =
            concat (map (\<lambda>i. pushedImage (convertPage world buffer i))
                      [1..<Suc (min (pageCount result) 5)]))"
proof (cases "fsPrepare world buffer")
  case (Some error)
  then show ?thesis by (simp add: convertPDFToImages_def)
next
  case None
  note prep = None
  show ?thesis
  proof (cases "parsePDF world buffer")
    case (Inl error)
    then show ?thesis by (simp add: convertPDFToImages_def prep)
  next
    case (Inr data)
    note parsed = Inr
    show ?thesis
    proof (cases "fsRemove world")
      case (Some error)
      then show ?thesis by (simp add: convertPDFToImages_def prep parsed Let_def)
    next
      case None
      let ?pages = "if numpages data = 0 then 1 else numpages data"
      have res: "convertPDFToImages world buffer =
                   Inr \<lparr>images = convertPages (convertPage world buffer) (min ?pages 5) 1 [],
                        pageCount = ?pages\<rparr>"
        by (simp add: convertPDFToImages_def prep parsed None Let_def)
      have len: "length (convertPages (convertPage world buffer) (min ?pages 5) 1 []) \<le> min ?pages 5"
        by (rule convertPages_length)
      show ?thesis
        unfolding res using len
        by (simp add: prep parsed None convertPages_eq del: upt_Suc)
    qed
  qed
qed

text \<open>
  The theorem on a 12-page PDF whose second page makes the converter throw and whose
  fourth page comes back without a path: three images, \<open>pageCount = 12\<close>.
\<close>

theorem convertPDFToImages_cap_witness:
  "convertPDFToImages twelvePageWorld ''%PDF-1.4'' =
     Inr \<lparr>images = [''page-1'', ''page-3'', ''page-5''], pageCount = 12\<rparr>"
proof -
  have prep: "fsPrepare twelvePageWorld ''%PDF-1.4'' = None"
    and rm: "fsRemove twelvePageWorld = None"
    and parsed: "parsePDF twelvePageWorld ''%PDF-1.4'' = Inr \<lparr>pdfText = ''Annual report'', numpages = 12\<rparr>"
    by (simp_all add: twelvePageWorld_def quietWorld_def)
  have pages: "concat (map (\<lambda>i. pushedImage (convertPage twelvePageWorld ''%PDF-1.4'' i))
                      [1..<Suc (min 12 5)]) = [''page-1'', ''page-3'', ''page-5'']"
    by code_simp
  obtain result where r: "convertPDFToImages twelvePageWorld ''%PDF-1.4'' = Inr result"
    by (simp add: convertPDFToImages_def prep rm parsed Let_def)
  from convertPDFToImages_cap [of twelvePageWorld "''%PDF-1.4''"] r parsed pages
  have "images result = [''page-1'', ''page-3'', ''page-5'']" and "pageCount result = 12"
    by (simp_all del: upt_Suc)
  with r show ?thesis by simp
qed

text \<open>
  C5 does not hold of the code. Take an admitted upload of a file named \<open>*.pdf\<close> of at
  most 10 MB, with the API key configured, for which the image extractor returns no image
  and the parser finds at most 50 characters of text. The handler sets \<open>summary\<close> to the
  message \<open>Unable to process PDF "<name>". The document may be image-based or
  corrupted.\<close> and goes on to the success response: status 200 with that text as the
  summary, no request having left the process.
\<close>

theorem POST_document_unreadable_pdf:
  assumes limiter: "rateLimit heavyConfig now request None logs = (rateLimitResult, logs')"
      and admitted: "allowed rateLimitResult"
      and form: "readFormData world = Inr form"
      and kind: "formType form = Some ''file''"
      and doc: "formDocument form = Some doc"
      and size: "fileSize doc \<le> 10 * 1024 * 1024"
      and pdf: "endsWith (toLowerCase (fileName doc)) ''.pdf''"
      and key: "apiKeyConfigured world"
      and converted: "convertPDFToImages world (fileContent doc) = Inr converted"
      and noImages: "images converted = []"
      and parsed: "parsePDF world (fileContent doc) = Inr data"
      and short: "length (take 8000 (pdfText data)) \<le> 50"
  shows "POST_document world request now logs =
           (\<lparr>status = 200, responseHeaders = [],
             body = SummaryBody
                      (''Unable to process PDF '' @ quoted (fileName doc)
                       @ ''. The document may be image-based or corrupted.'')
                      (fileName doc) now (remaining rateLimitResult)\<rparr>,
            [], logs')"
proof -
  have sub: "readSubmission world form now =
               (Inr \<lparr>textContent = [], documentName = fileName doc, isPDF = True,
                     pdfBuffer = Some (fileContent doc)\<rparr>, [])"
    using kind doc size pdf by (simp add: readSubmission_def Let_def)
  have summary: "summarizePDF world (fileName doc) (fileContent doc) now =
                   (Inr (''Unable to process PDF '' @ quoted (fileName doc)
                         @ ''. The document may be image-based or corrupted.''), [])"
    using converted noImages parsed short by (auto simp: summarizePDF_def Let_def)
  show ?thesis
    using limiter admitted form key
    by (simp add: POST_document_def sub summary)
qed

text \<open>
  The failing input: the scanned PDF \<open>scan.pdf\<close> (no page yields an image, the parser
  finds the seven characters \<open>Scanned\<close>), first request of its sender. The response is a
  success with the placeholder as its summary.
\<close>

theorem POST_document_unreadable_pdf_witness:
  "fst (POST_document scannedPdfWorld plainRequest 1000 Map.empty) =
     \<lparr>status = 200, responseHeaders = [],
      body = SummaryBody
               (''Unable to process PDF '' @ quoted ''scan.pdf''
                @ ''. The document may be image-based or corrupted.'')
               ''scan.pdf'' 1000 4\<rparr>"
proof -
  let ?doc = "\<lparr>fileName = ''scan.pdf'', fileSize = 20480,
               fileType = ''application/pdf'', fileContent = ''%PDF-1.4''\<rparr>"
  let ?rl = "\<lparr>allowed = True, remaining = 4, resultResetTime = 61000, retryAfter = None\<rparr>"
  let ?logs' = "[''anonymous'' \<mapsto> \<lparr>count = 1, resetTime = 61000\<rparr>]"
  have h1: "rateLimit heavyConfig 1000 plainRequest None Map.empty = (?rl, ?logs')"
    by (simp add: rateLimit_def rateLimitId_def clientId_def js_or_def plainRequest_def
          heavyConfig_def)
  have h2: "allowed ?rl" by simp
  have h3: "readFormData scannedPdfWorld = Inr scanForm"
    by (simp add: scannedPdfWorld_def quietWorld_def)
  have h4: "formType scanForm = Some ''file''"
    and h5: "formDocument scanForm = Some ?doc"
    by (simp_all add: scanForm_def emptyForm_def)
  have h6: "fileSize ?doc \<le> 10 * 1024 * 1024" by simp
  have h7: "endsWith (toLowerCase (fileName ?doc)) ''.pdf''" by code_simp
  have h8: "apiKeyConfigured scannedPdfWorld"
    by (simp add: apiKeyConfigured_def scannedPdfWorld_def quietWorld_def)
  have h9: "convertPDFToImages scannedPdfWorld (fileContent ?doc) = Inr \<lparr>images = [], pageCount = 3\<rparr>"
    by (simp add: convertPDFToImages_def scannedPdfWorld_def quietWorld_def convertPages_eq
          upt_conv_Cons del: upt_Suc)
  have h10: "images \<lparr>images = [], pageCount = 3\<rparr> = []" by simp
  have h11: "parsePDF scannedPdfWorld (fileContent ?doc) = Inr \<lparr>pdfText = ''Scanned'', numpages = 3\<rparr>"
    by (simp add: scannedPdfWorld_def quietWorld_def)
  have h12: "length (take 8000 (pdfText \<lparr>pdfText = ''Scanned'', numpages = 3\<rparr>)) \<le> 50" by simp
  from POST_document_unreadable_pdf [OF h1 h2 h3 h4 h5 h6 h7 h8 h9 h10 h11 h12]
  show ?thesis by simp
qed

text \<open>
  The sibling path of the same handler does fail the request: when the extractor throws
  instead of returning no image, and the text is as short, the \<open>catch\<close> block returns the
  error response \<open>PDF processing failed: ...\<close> with status 400.
\<close>

lemma POST_document_unreadable_pdf_sibling:
  assumes limiter: "rateLimit heavyConfig now request None logs = (rateLimitResult, logs')"
      and admitted: "allowed rateLimitResult"
      and form: "readFormData world = Inr form"
      and kind: "formType form = Some ''file''"
      and doc: "formDocument form = Some doc"
      and size: "fileSize doc \<le> 10 * 1024 * 1024"
      and pdf: "endsWith (toLowerCase (fileName doc)) ''.pdf''"
      and key: "apiKeyConfigured world"
      and thrown: "convertPDFToImages world (fileContent doc) = Inl pdfError"
      and parsed: "parsePDF world (fileContent doc) = Inr data"
      and short: "length (take 8000 (pdfText data)) \<le> 50"
  shows "POST_document world request now logs =
           (errorResponse (''PDF processing failed: '' @ errMessage pdfError) 400 None now,
            [], logs')"
proof -
  have sub: "readSubmission world form now =
               (Inr \<lparr>textContent = [], documentName = fileName doc, isPDF = True,
                     pdfBuffer = Some (fileContent doc)\<rparr>, [])"
    using kind doc size pdf by (simp add: readSubmission_def Let_def)
  have summary: "summarizePDF world (fileName doc) (fileContent doc) now =
                   (Inl (errorResponse (''PDF processing failed: '' @ errMessage pdfError)
                           400 None now), [])"
    using thrown parsed short by (auto simp: summarizePDF_def lastResort_def Let_def)
  show ?thesis
    using limiter admitted form key
    by (simp add: POST_document_def sub summary)
qed

text \<open>
  C8. Take a request whose form has \<open>type = url\<close> and a URL field. If the URL is empty,
  does not parse, or parses with a protocol other than \<open>http:\<close> and \<open>https:\<close>, no
  request leaves the process, and, the limiter having admitted the request, the response
  is a validation error (status 400). If the URL parses with one of the two protocols, the
  request is admitted and fetching fails, the response is the error
  \<open>Failed to fetch URL: <reason>\<close>, after the one HTTP request, where the reason is
  \<open>Cannot connect to the URL\<close> for the error code \<open>ECONNREFUSED\<close>, else \<open>URL not found\<close>
  for a response status 404, else \<open>Failed to fetch URL content\<close>; the three reasons
  differ.
\<close>

theorem POST_document_url_errors:
  assumes limiter: "rateLimit heavyConfig now request None logs = (rateLimitResult, logs')"
      and form: "readFormData world = Inr form"
      and kind: "formType form = Some ''url''"
      and field: "formUrl form = Some url"
  shows "(url = [] \<or> parseURL world url \<notin> {Some ''http:'', Some ''https:''} \<longrightarrow>
            fst (snd (POST_document world request now logs)) = []
            \<and> (allowed rateLimitResult \<longrightarrow>
                 POST_document world request now logs =
                   (errorResponse
                      (if url = [] then ''No URL provided''
                       else if parseURL world url = None then ''Invalid URL format''
                       else ''Invalid URL protocol. Only HTTP and HTTPS are supported.'')
                      400 None now,
                    [], logs')))
       \<and> (url \<noteq> [] \<and> parseURL world url \<in> {Some ''http:'', Some ''https:''}
            \<and> allowed rateLimitResult \<longrightarrow>
            (\<forall>error. axiosGet world url = Inl error \<longrightarrow>
               POST_document world request now logs =
                 (errorResponse
                    (''Failed to fetch URL: ''
                     @ (if errCode error = Some ''ECONNREFUSED'' then ''Cannot connect to the URL''
                        else if errResponseStatus error = Some 404 then ''URL not found''
                        else ''Failed to fetch URL content''))
                    400 None now,
                  [HttpGet url], logs')))
       \<and> distinct [''Cannot connect to the URL'', ''URL not found'', ''Failed to fetch URL content'']"
proof -
  have bad: "POST_document world request now logs =
              (errorResponse
                 (if url = [] then ''No URL provided''
                  else if parseURL world url = None then ''Invalid URL format''
                  else ''Invalid URL protocol. Only HTTP and HTTPS are supported.'')
                 400 None now,
               [], logs')"
    if "url = [] \<or> parseURL world url \<notin> {Some ''http:'', Some ''https:''}"
      and "allowed rateLimitResult"
  proof -
    have "readSubmission world form now =
          (Inl (errorResponse
                 (if url = [] then ''No URL provided''
                  else if parseURL world url = None then ''Invalid URL format''
                  else ''Invalid URL protocol. Only HTTP and HTTPS are supported.'')
                 400 None now), [])"
      using kind field that(1)
      by (auto simp: readSubmission_def Let_def split: option.splits)
    then show ?thesis
      using limiter that(2) form by (simp add: POST_document_def)
  qed
  have quiet: "fst (snd (POST_document world request now logs)) = []"
    if "url = [] \<or> parseURL world url \<notin> {Some ''http:'', Some ''https:''}"
  proof (cases "allowed rateLimitResult")
    case True
    with that show ?thesis by (simp add: bad)
  next
    case False
    then show ?thesis using limiter by (simp add: POST_document_def)
  qed
  have good: "POST_document world request now logs =
                 (errorResponse
                    (''Failed to fetch URL: ''
                     @ (if errCode error = Some ''ECONNREFUSED'' then ''Cannot connect to the URL''
                        else if errResponseStatus error = Some 404 then ''URL not found''
                        else ''Failed to fetch URL content''))
                    400 None now,
                  [HttpGet url], logs')"
    if "url \<noteq> [] \<and> parseURL world url \<in> {Some ''http:'', Some ''https:''}
          \<and> allowed rateLimitResult"
      and failed: "axiosGet world url = Inl error" for error
  proof -
    have fetch: "extractTextFromUrl world url =
          Inl (newError (if errCode error = Some ''ECONNREFUSED'' then ''Cannot connect to the URL''
                        else if errResponseStatus error = Some 404 then ''URL not found''
                        else ''Failed to fetch URL content''))"
      using failed by (simp add: extractTextFromUrl_def)
    have "readSubmission world form now =
          (Inl (errorResponse
                    (''Failed to fetch URL: ''
                     @ (if errCode error = Some ''ECONNREFUSED'' then ''Cannot connect to the URL''
                        else if errResponseStatus error = Some 404 then ''URL not found''
                        else ''Failed to fetch URL content''))
                    400 None now), [HttpGet url])"
      using kind field that(1)
      by (auto simp: readSubmission_def Let_def fetch newError_def)
    then show ?thesis
      using limiter that(1) form by (simp add: POST_document_def)
  qed
  have reasons: "distinct [''Cannot connect to the URL'', ''URL not found'', ''Failed to fetch URL content'']"
    by simp
  from bad quiet good reasons show ?thesis by blast
qed

text \<open>
  The theorem on an \<open>ftp\<close> URL, in a world where a fetch would succeed, and on an
  \<open>http\<close> URL whose host refuses the connection.
\<close>

theorem POST_document_url_errors_witness:
  "fst (POST_document ftpWorld plainRequest 1000 Map.empty) =
     errorResponse ''Invalid URL protocol. Only HTTP and HTTPS are supported.'' 400 None 1000
   \<and> fst (snd (POST_document ftpWorld plainRequest 1000 Map.empty)) = []
   \<and> fst (POST_document refusedWorld plainRequest 1000 Map.empty) =
       errorResponse ''Failed to fetch URL: Cannot connect to the URL'' 400 None 1000
   \<and> fst (snd (POST_document refusedWorld plainRequest 1000 Map.empty)) =
       [HttpGet ''http://localhost:9/'']"
proof -
  let ?rl = "\<lparr>allowed = True, remaining = 4, resultResetTime = 61000, retryAfter = None\<rparr>"
  let ?logs' = "[''anonymous'' \<mapsto> \<lparr>count = 1, resetTime = 61000\<rparr>]"
  let ?ftpForm = "emptyForm\<lparr>formType := Some ''url'', formUrl := Some ''ftp://example.com/notes.txt''\<rparr>"
  let ?httpForm = "emptyForm\<lparr>formType := Some ''url'', formUrl := Some ''http://localhost:9/''\<rparr>"
  let ?refused = "\<lparr>errMessage = ''connect ECONNREFUSED 127.0.0.1:9'',
                    errCode = Some ''ECONNREFUSED'', errStatus = None, errResponseStatus = None\<rparr>"
  have h1: "rateLimit heavyConfig 1000 plainRequest None Map.empty = (?rl, ?logs')"
    by (simp add: rateLimit_def rateLimitId_def clientId_def js_or_def plainRequest_def
          heavyConfig_def)
  have h2: "allowed ?rl" by simp
  have f3: "readFormData ftpWorld = Inr ?ftpForm"
    and r3: "readFormData refusedWorld = Inr ?httpForm"
    by (simp_all add: ftpWorld_def refusedWorld_def quietWorld_def)
  have f4: "formType ?ftpForm = Some ''url''"
    and f5: "formUrl ?ftpForm = Some ''ftp://example.com/notes.txt''"
    and r4: "formType ?httpForm = Some ''url''"
    and r5: "formUrl ?httpForm = Some ''http://localhost:9/''"
    by (simp_all add: emptyForm_def)
  have fp: "parseURL ftpWorld ''ftp://example.com/notes.txt'' = Some ''ftp:''"
    and rp: "parseURL refusedWorld ''http://localhost:9/'' = Some ''http:''"
    and rg: "axiosGet refusedWorld ''http://localhost:9/'' = Inl ?refused"
    by (simp_all add: ftpWorld_def refusedWorld_def quietWorld_def)
  from POST_document_url_errors [OF h1 f3 f4 f5] fp h2
  have a: "POST_document ftpWorld plainRequest 1000 Map.empty =
             (errorResponse ''Invalid URL protocol. Only HTTP and HTTPS are supported.'' 400 None 1000,
              [], ?logs')"
    by simp
  from POST_document_url_errors [OF h1 r3 r4 r5] rp rg h2
  have b: "POST_document refusedWorld plainRequest 1000 Map.empty =
             (errorResponse ''Failed to fetch URL: Cannot connect to the URL'' 400 None 1000,
              [HttpGet ''http://localhost:9/''], ?logs')"
    by simp
  from a b show ?thesis by simp
qed
text \<open>
  When the limiter rejects, the document route answers 429 with the four headers, before
  reading the form.
\<close>

lemma POST_document_rejected:
  assumes "rateLimit heavyConfig now request None logs = (rateLimitResult, logs')"
      and "\<not> allowed rateLimitResult"
  shows "POST_document world request now logs = (tooManyRequests rateLimitResult, [], logs')"
    and "status (tooManyRequests rateLimitResult) = 429"
    and "map fst (responseHeaders (tooManyRequests rateLimitResult)) =
           [''Retry-After'', ''X-RateLimit-Limit'', ''X-RateLimit-Remaining'', ''X-RateLimit-Reset'']"
  using assms by (simp_all add: POST_document_def tooManyRequests_def)

text \<open>
  C6 does not hold of the code, in two ways. First, the image route never calls a
  limiter: with the sender's window already at the image ceiling of 10, where
  \<open>rateLimiters.image\<close> rejects, the route answers 200 and leaves the map untouched.
  Second, the four limiters write one map keyed by the identifier alone: after five calls
  of \<open>rateLimiters.standard\<close> by a client that never used the document route, its first
  document request is rejected by \<open>rateLimiters.heavy\<close> with status 429.
\<close>

theorem rateLimiters_not_per_route:
  "fst (rateLimit imageConfig 5000 plainRequest None
          [''anonymous'' \<mapsto> \<lparr>count = 10, resetTime = 61000\<rparr>]) =
     \<lparr>allowed = False, remaining = 0, resultResetTime = 61000, retryAfter = Some 56\<rparr>
   \<and> serve imageWorld AnalyzeImage plainRequest 5000
         [''anonymous'' \<mapsto> \<lparr>count = 10, resetTime = 61000\<rparr>] =
       (\<lparr>status = 200, responseHeaders = [],
         body = DescriptionBody (DemoMode ''image/png'' 2048)\<rparr>,
        [''anonymous'' \<mapsto> \<lparr>count = 10, resetTime = 61000\<rparr>])
   \<and> snd (admits standardConfig ''anonymous'' [1000, 2000, 3000, 4000, 5000] Map.empty) =
       [''anonymous'' \<mapsto> \<lparr>count = 5, resetTime = 61000\<rparr>]
   \<and> fst (serve scannedPdfWorld AnalyzeDocument plainRequest 6000
              [''anonymous'' \<mapsto> \<lparr>count = 5, resetTime = 61000\<rparr>]) =
       tooManyRequests
         \<lparr>allowed = False, remaining = 0, resultResetTime = 61000, retryAfter = Some 55\<rparr>"
proof -
  have key: "clientId plainRequest None = ''anonymous''"
    by (simp add: clientId_def js_or_def plainRequest_def)
  have a: "fst (rateLimit imageConfig 5000 plainRequest None
          [''anonymous'' \<mapsto> \<lparr>count = 10, resetTime = 61000\<rparr>]) =
     \<lparr>allowed = False, remaining = 0, resultResetTime = 61000, retryAfter = Some 56\<rparr>"
    by (simp add: rateLimit_def key rateLimitId_def imageConfig_def ceilSeconds_def)
  have form: "readFormData imageWorld =
                Inr (emptyForm\<lparr>formImage := Some \<lparr>fileName = ''cat.png'', fileSize = 2048,
                               fileType = ''image/png'', fileContent = ''PNG''\<rparr>\<rparr>)"
    and nokey: "\<not> apiKeyConfigured imageWorld"
    by (simp_all add: imageWorld_def quietWorld_def apiKeyConfigured_def)
  have b: "POST_image imageWorld =
       \<lparr>status = 200, responseHeaders = [], body = DescriptionBody (DemoMode ''image/png'' 2048)\<rparr>"
    by (simp add: POST_image_def form nokey Let_def emptyForm_def)
  have c: "snd (admits standardConfig ''anonymous'' [1000, 2000, 3000, 4000, 5000] Map.empty) =
       [''anonymous'' \<mapsto> \<lparr>count = 5, resetTime = 61000\<rparr>]"
    by (simp add: rateLimitId_def standardConfig_def)
  have limiter: "rateLimit heavyConfig 6000 plainRequest None
                   [''anonymous'' \<mapsto> \<lparr>count = 5, resetTime = 61000\<rparr>] =
       (\<lparr>allowed = False, remaining = 0, resultResetTime = 61000, retryAfter = Some 55\<rparr>,
        [''anonymous'' \<mapsto> \<lparr>count = 5, resetTime = 61000\<rparr>])"
    by (simp add: rateLimit_def key rateLimitId_def heavyConfig_def ceilSeconds_def)
  have d: "fst (serve scannedPdfWorld AnalyzeDocument plainRequest 6000
              [''anonymous'' \<mapsto> \<lparr>count = 5, resetTime = 61000\<rparr>]) =
       tooManyRequests
         \<lparr>allowed = False, remaining = 0, resultResetTime = 61000, retryAfter = Some 55\<rparr>"
    by (simp add: POST_document_def limiter)
  from a b c d show ?thesis by simp
qed

end
